theory Spec2Isabelle
  imports Main "HOL-Library.Sublist"
begin

section \<open>JavaScript values used by the components\<close>

text \<open>
  Optional JSON fields and nullable state are \<open>string option\<close> (\<open>None\<close> for
  \<open>undefined\<close>/\<open>null\<close>). A string is truthy when it is not empty, which is what
  \<open>a || b\<close> and \<open>if (a)\<close> test. A \<open>string\<close> stands for the sequence of code
  units of the JavaScript string, so \<open>length\<close> is \<open>.length\<close>. The user-facing
  messages are written here without their accents and emoji.
\<close>

definition truthy :: "string option \<Rightarrow> bool" where
  "truthy a = (case a of None \<Rightarrow> False | Some s \<Rightarrow> s \<noteq> [])"

definition or_else :: "string option \<Rightarrow> string option \<Rightarrow> string option" where
  "or_else a b = (if truthy a then a else b)"

definition or_default :: "string option \<Rightarrow> string \<Rightarrow> string" where
  "or_default a d = (case a of None \<Rightarrow> d | Some s \<Rightarrow> if s = [] then d else s)"

text \<open>\<open>s.includes(t)\<close>: \<open>t\<close> occurs in \<open>s\<close> as a contiguous substring.\<close>

fun str_includes :: "string \<Rightarrow> string \<Rightarrow> bool" where
  "str_includes [] t = (t = [])"
| "str_includes (c # s) t = (prefix t (c # s) \<or> str_includes s t)"

section \<open>The backend as seen through axios\<close>

text \<open>
  What a rejected axios call exposes to the handlers: \<open>error.code\<close>,
  \<open>error.response?.status\<close>, \<open>error.response?.data?.detail\<close> and \<open>error.message\<close>.
\<close>

record axios_error =
  err_code :: "string option"
  err_status :: "nat option"
  err_detail :: "string option"
  err_message :: "string option"

text \<open>\<open>GET /client/{uniqueUrl}/landing\<close>\<close>

record landing_data =
  l_id :: string
  l_name :: string
  l_email :: string
  l_status :: "string option"
  l_connected :: bool
  l_connected_phone :: "string option"
  l_messageCount :: nat
  l_pausedCount :: nat
  l_globalPause :: bool

text \<open>\<open>GET /client/{clientId}/qr\<close>\<close>

record qr_data =
  qr :: "string option"
  qr_error :: "string option"
  qr_state :: "string option"
  qr_connected_phone :: "string option"

text \<open>One entry of \<open>GET /admin/clients\<close>.\<close>

record client_rec =
  c_id :: string
  c_name :: string
  c_email :: string
  c_unique_url :: string
  c_status :: string
  c_connected_phone :: "string option"

text \<open>The body of \<open>POST /admin/clients\<close>.\<close>

record form_data =
  f_name :: string
  f_email :: string
  f_openai_api_key :: string
  f_openai_assistant_id :: string

datatype request =
    GetLanding string
  | GetStatus string
  | GetQr string
  | PostToggle string string
  | GetClients
  | PostClients form_data
  | DeleteClient string
  | PutEmail string string
  | PostResendEmail string

text \<open>
  Everything a handler does to the outside world, in the order it happens: network
  requests, \<open>setTimeout\<close> waits, \<open>window.confirm\<close> dialogs with the user's answer,
  toasts, and the timer that clears the success notice.
\<close>

datatype effect =
    Net request
  | Sleep nat
  | Confirm string bool
  | ToastError string
  | ToastSuccess string
  | ClearSuccessAfter nat

text \<open>
  The backend is not part of this repository's front end: it is a parameter. Each
  endpoint answers from the history of effects so far, so its answers may change
  from one call to the next.
\<close>

record backend =
  get_landing :: "effect list \<Rightarrow> string \<Rightarrow> axios_error + landing_data"
  get_status :: "effect list \<Rightarrow> string \<Rightarrow> axios_error + string"
  get_qr :: "effect list \<Rightarrow> string \<Rightarrow> axios_error + qr_data"
  get_clients :: "effect list \<Rightarrow> axios_error + client_rec list option"
  mutate :: "effect list \<Rightarrow> request \<Rightarrow> axios_error + unit"

section \<open>View state of the client-facing pages\<close>

record client_info =
  ci_id :: string
  ci_name :: string
  ci_email :: string
  ci_status :: "string option"
  ci_messageCount :: nat
  ci_pausedCount :: nat
  ci_globalPause :: bool

record whatsapp_info =
  connected :: bool
  status :: string
  connected_phone :: "string option"

record client_data =
  client :: client_info
  whatsapp :: whatsapp_info

text \<open>
  The \<open>useState\<close> cells of \<open>QRAssistantPage\<close> and \<open>ClientLanding\<close>, the
  \<open>retryCountRef\<close> and the effects performed so far.
\<close>

record view =
  clientData :: "client_data option"
  qrCode :: "string option"
  loading :: bool
  errorMessage :: "string option"
  refreshing :: bool
  retryCount :: nat
  trace :: "effect list"

definition maxRetries :: nat where
  "maxRetries = 3"

definition emit :: "effect \<Rightarrow> view \<Rightarrow> view" where
  "emit e v = v\<lparr>trace := trace v @ [e]\<rparr>"

text \<open>\<open>clientData?.whatsapp?.connected\<close>\<close>

definition is_connected :: "client_data option \<Rightarrow> bool" where
  "is_connected cd = (case cd of None \<Rightarrow> False | Some d \<Rightarrow> connected (whatsapp d))"

text \<open>
  \<open>errorMsg.includes('Instance') && errorMsg.includes('does not exist')\<close>
\<close>

definition instance_missing :: "string \<Rightarrow> bool" where
  "instance_missing msg = (str_includes msg ''Instance'' \<and> str_includes msg ''does not exist'')"

section \<open>QRAssistantPage\<close>

text \<open>\<open>const errorMsg = error.response?.data?.detail || 'Error al conectar con el servidor.'\<close>\<close>

definition errorMsg :: "axios_error \<Rightarrow> string" where
  "errorMsg e = or_default (err_detail e) ''Error al conectar con el servidor.''"

text \<open>
  \<open>fetchQRCode\<close> (AssistantInfo.jsx, lines 170-213). \<open>cd\<close> is the \<open>clientData\<close> the
  callback closed over (\<open>useCallback\<close> with dependency \<open>clientData\<close>); the recursive
  call goes through the same closure.
\<close>

function fetchQRCode :: "backend \<Rightarrow> client_data option \<Rightarrow> string \<Rightarrow> view \<Rightarrow> view" where
  "fetchQRCode be cd instance_id v =
    (if is_connected cd then v\<lparr>qrCode := None\<rparr>
     else
       (case get_qr be (trace v) instance_id of
          Inr d \<Rightarrow>
            (if truthy (qr d)
             then (emit (Net (GetQr instance_id)) v)
                    \<lparr>qrCode := qr d, errorMessage := None, retryCount := 0, refreshing := False\<rparr>
             else (emit (Net (GetQr instance_id)) v)
                    \<lparr>qrCode := None,
                     errorMessage := Some (or_default (qr_error d) ''No se pudo cargar el codigo QR.''),
                     refreshing := False\<rparr>)
        | Inl e \<Rightarrow>
            (if instance_missing (errorMsg e)
                \<and> retryCount v < maxRetries
             then (fetchQRCode be cd instance_id
                     ((emit (Sleep 2000) (emit (Net (GetQr instance_id)) v))
                        \<lparr>qrCode := None,
                         errorMessage := Some (errorMsg e),
                         retryCount := retryCount v + 1,
                         refreshing := True\<rparr>))
                    \<lparr>refreshing := False\<rparr>
             else (emit (ToastError (errorMsg e))
                     (emit (Net (GetQr instance_id)) v))
                    \<lparr>qrCode := None,
                     errorMessage := Some (errorMsg e),
                     refreshing := False\<rparr>)))"
  by pat_completeness auto
termination
  by (relation "measure (\<lambda>(be, cd, i, v). maxRetries - retryCount v)") auto

declare fetchQRCode.simps [simp del]

text \<open>
  \<open>fetchClientData\<close> of \<open>QRAssistantPage\<close> (AssistantInfo.jsx, lines 215-271). The
  \<open>catch\<close> block serves the landing and the status request alike; \<open>fetchQRCode\<close>
  handles its own failures and never throws. The toast in the \<open>catch\<close> block shows
  the \<open>errorMessage\<close> the callback closed over, here the one on entry.
\<close>

definition qr_page_failure_message :: "axios_error \<Rightarrow> string" where
  "qr_page_failure_message e =
    (if err_status e = Some 404
     then ''Cliente no encontrado. Verifica que el enlace sea correcto o contacta al administrador (contacto@tiks.cl).''
     else if err_status e = Some 403
     then ''Error de autenticacion con el servidor de WhatsApp. Contacta al administrador.''
     else ''Error al verificar el estado.'')"

definition qr_page_catch :: "string option \<Rightarrow> axios_error \<Rightarrow> view \<Rightarrow> view" where
  "qr_page_catch closed_msg e v =
    (emit (ToastError (or_default closed_msg ''Error desconocido al conectar con el servidor.'')) v)
      \<lparr>qrCode := None, errorMessage := Some (qr_page_failure_message e),
       loading := False, refreshing := False\<rparr>"

definition qr_page_clientData :: "landing_data \<Rightarrow> string \<Rightarrow> client_data" where
  "qr_page_clientData c st =
    \<lparr>client = \<lparr>ci_id = l_id c, ci_name = l_name c, ci_email = l_email c, ci_status = l_status c,
               ci_messageCount = 0, ci_pausedCount = 0, ci_globalPause = False\<rparr>,
     whatsapp = \<lparr>connected = l_connected c, status = st,
                 connected_phone = or_else (l_connected_phone c) None\<rparr>\<rparr>"

definition fetchClientData :: "backend \<Rightarrow> string \<Rightarrow> view \<Rightarrow> view" where
  "fetchClientData be unique_url v =
    (case get_landing be (trace v) unique_url of
       Inl e \<Rightarrow> qr_page_catch (errorMessage v) e
                  ((emit (Net (GetLanding unique_url)) v)\<lparr>refreshing := True, loading := True\<rparr>)
     | Inr c \<Rightarrow>
        (case get_status be (trace v @ [Net (GetLanding unique_url)]) (l_id c) of
           Inl e \<Rightarrow> qr_page_catch (errorMessage v) e
                      ((emit (Net (GetStatus (l_id c))) (emit (Net (GetLanding unique_url)) v))
                         \<lparr>refreshing := True, loading := True\<rparr>)
         | Inr st \<Rightarrow>
            (if st \<noteq> ''open''
             then fetchQRCode be (clientData v) (l_id c)
                    ((emit (Net (GetStatus (l_id c))) (emit (Net (GetLanding unique_url)) v))
                       \<lparr>clientData := Some (qr_page_clientData c st), errorMessage := None,
                        refreshing := True, loading := True\<rparr>)
             else (emit (Net (GetStatus (l_id c))) (emit (Net (GetLanding unique_url)) v))
                    \<lparr>clientData := Some (qr_page_clientData c st), errorMessage := None,
                     qrCode := None\<rparr>)
              \<lparr>loading := False, refreshing := False\<rparr>))"

section \<open>ClientLanding\<close>

text \<open>
  \<open>fetchClientData\<close> of \<open>ClientLanding\<close> (part_000, lines 31-143). The three requests
  share one outer \<open>try\<close>; the QR request has an inner \<open>try\<close> of its own, whose
  \<open>catch\<close> re-enters the whole function after 2000 ms while the retry counter allows.
\<close>

definition qrErrorMsg :: "axios_error \<Rightarrow> string" where
  "qrErrorMsg e = or_default (err_detail e) ''Error al conectar con el servidor para obtener el QR''"

definition landing_failure_message :: "axios_error \<Rightarrow> string" where
  "landing_failure_message e =
    (if err_status e = Some 404
     then ''Cliente no encontrado. Verifica que el enlace sea correcto o contacta a soporte.''
     else if err_status e = Some 401
     then ''Acceso no autorizado. Contacta al administrador.''
     else ''No se pudo conectar con el servidor. Por favor intenta nuevamente.'')"

definition landing_catch :: "axios_error \<Rightarrow> view \<Rightarrow> view" where
  "landing_catch e v =
    (emit (ToastError (or_default (err_message e) ''Error desconocido al conectar con el servidor.'')) v)
      \<lparr>qrCode := None, errorMessage := Some (landing_failure_message e),
       loading := False, refreshing := False\<rparr>"

definition newClientData :: "landing_data \<Rightarrow> string \<Rightarrow> client_data" where
  "newClientData c st =
    \<lparr>client = \<lparr>ci_id = l_id c, ci_name = l_name c, ci_email = l_email c, ci_status = None,
               ci_messageCount = l_messageCount c, ci_pausedCount = l_pausedCount c,
               ci_globalPause = l_globalPause c\<rparr>,
     whatsapp = \<lparr>connected = l_connected c, status = st,
                 connected_phone = l_connected_phone c\<rparr>\<rparr>"

text \<open>The QR response arrived (lines 85-104); \<open>cd\<close> is the record just stored.\<close>

definition apply_qrResponse :: "client_data \<Rightarrow> qr_data \<Rightarrow> view \<Rightarrow> view" where
  "apply_qrResponse cd d v =
    (if truthy (qr d)
     then v\<lparr>qrCode := qr d, errorMessage := None, retryCount := 0\<rparr>
     else if qr_state d = Some ''open''
     then v\<lparr>clientData := Some (cd\<lparr>whatsapp := (whatsapp cd)
                 \<lparr>connected := True, connected_phone := or_else (qr_connected_phone d) None,
                  status := ''open''\<rparr>\<rparr>),
            qrCode := None, errorMessage := None\<rparr>
     else v\<lparr>qrCode := None,
            errorMessage := Some (or_default (qr_error d) ''No se pudo cargar el codigo QR. Intenta de nuevo.'')\<rparr>)"

function fetchClientData_landing :: "backend \<Rightarrow> string option \<Rightarrow> bool \<Rightarrow> view \<Rightarrow> view" where
  "fetchClientData_landing be unique_url fetchQr v =
    (case unique_url of
       None \<Rightarrow> v\<lparr>errorMessage := Some ''Enlace invalido. Verifica la URL e intenta nuevamente.'',
                 loading := False, refreshing := False\<rparr>
     | Some u \<Rightarrow>
        (if u = [] then v\<lparr>errorMessage := Some ''Enlace invalido. Verifica la URL e intenta nuevamente.'',
                           loading := False, refreshing := False\<rparr>
         else
           (case get_landing be (trace v) u of
              Inl e \<Rightarrow> landing_catch e (emit (Net (GetLanding u)) v)
            | Inr c \<Rightarrow>
               (case get_status be (trace v @ [Net (GetLanding u)]) (l_id c) of
                  Inl e \<Rightarrow> landing_catch e (emit (Net (GetStatus (l_id c))) (emit (Net (GetLanding u)) v))
                | Inr st \<Rightarrow>
                   (if st \<noteq> ''open'' \<and> fetchQr
                    then
                      (case get_qr be (trace v @ [Net (GetLanding u), Net (GetStatus (l_id c))]) (l_id c) of
                         Inr d \<Rightarrow>
                           (apply_qrResponse (newClientData c st) d
                              ((emit (Net (GetQr (l_id c)))
                                  (emit (Net (GetStatus (l_id c))) (emit (Net (GetLanding u)) v)))
                                 \<lparr>clientData := Some (newClientData c st), errorMessage := None\<rparr>))
                             \<lparr>loading := False, refreshing := False\<rparr>
                       | Inl qrError \<Rightarrow>
                           (if instance_missing (qrErrorMsg qrError) \<and> retryCount v < maxRetries
                            then (fetchClientData_landing be unique_url fetchQr
                                    ((emit (Sleep 2000)
                                       (emit (Net (GetQr (l_id c)))
                                         (emit (Net (GetStatus (l_id c))) (emit (Net (GetLanding u)) v))))
                                       \<lparr>clientData := Some (newClientData c st), qrCode := None,
                                        errorMessage := Some (qrErrorMsg qrError),
                                        retryCount := retryCount v + 1, loading := True\<rparr>))
                                   \<lparr>loading := False, refreshing := False\<rparr>
                            else (emit (Net (GetQr (l_id c)))
                                    (emit (Net (GetStatus (l_id c))) (emit (Net (GetLanding u)) v)))
                                   \<lparr>clientData := Some (newClientData c st), qrCode := None,
                                    errorMessage := Some (qrErrorMsg qrError),
                                    loading := False, refreshing := False\<rparr>))
                    else (emit (Net (GetStatus (l_id c))) (emit (Net (GetLanding u)) v))
                           \<lparr>clientData := Some (newClientData c st), qrCode := None,
                            errorMessage := None, loading := False, refreshing := False\<rparr>)))))"
  by pat_completeness auto
termination
  by (relation "measure (\<lambda>(be, u, f, v). maxRetries - retryCount v)") auto

declare fetchClientData_landing.simps [simp del]

text \<open>
  A push event \<open>{clientId, status, phone?, qrCode?}\<close> from the WebSocket, after
  \<open>JSON.parse\<close>. The handlers compare \<open>clientId\<close> with \<open>===\<close>, which tells a
  missing field (\<open>undefined\<close>) from \<open>null\<close> and from a string.
\<close>

datatype js_id = Undefined | Null | Id string

record push_event =
  ev_clientId :: js_id
  ev_status :: string
  ev_phone :: "string option"
  ev_qrCode :: "string option"

datatype js_error = TypeError | ReferenceError

text \<open>\<open>clientData?.client?.id\<close>\<close>

definition viewed_id :: "view \<Rightarrow> js_id" where
  "viewed_id v = (case clientData v of None \<Rightarrow> Undefined | Some d \<Rightarrow> Id (ci_id (client d)))"

text \<open>
  \<open>socket.onmessage\<close> of \<open>ClientLanding\<close> (part_000, lines 210-229). The updater
  passed to \<open>setClientData\<close> reads \<open>prevData.whatsapp\<close>, which throws when the
  state is still \<open>null\<close>.
\<close>

definition landing_onmessage :: "push_event \<Rightarrow> view \<Rightarrow> js_error + view" where
  "landing_onmessage data v =
    (if ev_clientId data = viewed_id v
     then
       (case clientData v of
          None \<Rightarrow> Inl TypeError
        | Some prevData \<Rightarrow>
            Inr ((if truthy (ev_qrCode data)
                  then v\<lparr>qrCode := ev_qrCode data, errorMessage := None\<rparr>
                  else v)
                 \<lparr>clientData := Some (prevData\<lparr>whatsapp := (whatsapp prevData)
                    \<lparr>status := ev_status data,
                     connected := (ev_status data = ''open''),
                     connected_phone :=
                       or_else (ev_phone data) (connected_phone (whatsapp prevData))\<rparr>\<rparr>)\<rparr>))
     else Inr v)"

text \<open>
  \<open>handleDisconnectWhatsApp\<close> (part_000, lines 153-185) and \<open>handleDisconnect\<close> of
  \<open>QRAssistantPage\<close> (AssistantInfo.jsx, lines 273-305). \<open>confirm\<close> is the user's
  answer to the dialog with the given text.
\<close>

definition disconnect_prompt :: string where
  "disconnect_prompt = ''Estas seguro que quieres desvincular WhatsApp? Esto eliminara el dispositivo de tu lista de dispositivos vinculados.''"

definition handleDisconnectWhatsApp ::
    "backend \<Rightarrow> (string \<Rightarrow> bool) \<Rightarrow> string option \<Rightarrow> view \<Rightarrow> view" where
  "handleDisconnectWhatsApp be confirm unique_url v =
    (case viewed_id v of
       Undefined \<Rightarrow> emit (ToastError ''No se encontro el ID del cliente. Intenta nuevamente.'') v
     | Null \<Rightarrow> emit (ToastError ''No se encontro el ID del cliente. Intenta nuevamente.'') v
     | Id cid \<Rightarrow>
        (if cid = []
         then emit (ToastError ''No se encontro el ID del cliente. Intenta nuevamente.'') v
         else if \<not> confirm disconnect_prompt
         then emit (Confirm disconnect_prompt False) v
         else
           (case mutate be (trace v @ [Confirm disconnect_prompt True]) (PostToggle cid ''disconnect'') of
              Inr _ \<Rightarrow>
                (fetchClientData_landing be unique_url True
                   ((emit (ToastSuccess ''WhatsApp desvinculado exitosamente.'')
                      (emit (Net (PostToggle cid ''disconnect''))
                        (emit (Confirm disconnect_prompt True) v)))
                      \<lparr>refreshing := True\<rparr>))
                  \<lparr>refreshing := False\<rparr>
            | Inl e \<Rightarrow>
                (emit (ToastError ''Error al desvincular WhatsApp. Por favor intenta nuevamente.'')
                   (emit (Net (PostToggle cid ''disconnect''))
                     (emit (Confirm disconnect_prompt True) v)))
                  \<lparr>refreshing := False\<rparr>)))"

definition handleDisconnect ::
    "backend \<Rightarrow> (string \<Rightarrow> bool) \<Rightarrow> string \<Rightarrow> view \<Rightarrow> view" where
  "handleDisconnect be confirm unique_url v =
    (case viewed_id v of
       Undefined \<Rightarrow> emit (ToastError ''No se encontro el ID del cliente. Intenta nuevamente.'') v
     | Null \<Rightarrow> emit (ToastError ''No se encontro el ID del cliente. Intenta nuevamente.'') v
     | Id cid \<Rightarrow>
        (if cid = []
         then emit (ToastError ''No se encontro el ID del cliente. Intenta nuevamente.'') v
         else if \<not> confirm disconnect_prompt
         then emit (Confirm disconnect_prompt False) v
         else
           (case mutate be (trace v @ [Confirm disconnect_prompt True]) (PostToggle cid ''disconnect'') of
              Inr _ \<Rightarrow>
                (fetchClientData be unique_url
                   ((emit (ToastSuccess ''WhatsApp desvinculado exitosamente.'')
                      (emit (Net (PostToggle cid ''disconnect''))
                        (emit (Confirm disconnect_prompt True) v)))
                      \<lparr>refreshing := True\<rparr>))
                  \<lparr>refreshing := False\<rparr>
            | Inl e \<Rightarrow>
                (emit (ToastError (or_default (err_detail e) ''Error al desvincular WhatsApp.''))
                   (emit (Net (PostToggle cid ''disconnect''))
                     (emit (Confirm disconnect_prompt True) v)))
                  \<lparr>refreshing := False\<rparr>)))"

section \<open>Regular expressions\<close>

text \<open>
  The e-mail pattern \<open>/^[\w-.]+@([\w-]+\.)+[\w-]{2,4}$/\<close> uses character classes,
  concatenation, \<open>+\<close> and a bounded repetition only, so \<open>s.match(re)\<close> is not
  \<open>null\<close> exactly when the whole string is in the language of the expression.
  Membership is decided by derivatives.
\<close>

datatype rexp = Zero | One | Atom "char list" | Alt rexp rexp | Seq rexp rexp | Star rexp

fun nullable :: "rexp \<Rightarrow> bool" where
  "nullable Zero = False"
| "nullable One = True"
| "nullable (Atom cs) = False"
| "nullable (Alt r s) = (nullable r \<or> nullable s)"
| "nullable (Seq r s) = (nullable r \<and> nullable s)"
| "nullable (Star r) = True"

fun deriv :: "char \<Rightarrow> rexp \<Rightarrow> rexp" where
  "deriv c Zero = Zero"
| "deriv c One = Zero"
| "deriv c (Atom cs) = (if c \<in> set cs then One else Zero)"
| "deriv c (Alt r s) = Alt (deriv c r) (deriv c s)"
| "deriv c (Seq r s) =
     (if nullable r then Alt (Seq (deriv c r) s) (deriv c s) else Seq (deriv c r) s)"
| "deriv c (Star r) = Seq (deriv c r) (Star r)"

fun matches :: "rexp \<Rightarrow> string \<Rightarrow> bool" where
  "matches r [] = nullable r"
| "matches r (c # s) = matches (deriv c r) s"

definition plus1 :: "rexp \<Rightarrow> rexp" where
  "plus1 r = Seq r (Star r)"

text \<open>\<open>\w\<close>\<close>

definition word_chars :: "char list" where
  "word_chars = ''abcdefghijklmnopqrstuvwxyzABCDEFGHIJKLMNOPQRSTUVWXYZ0123456789_''"

definition email_regex :: rexp where
  "email_regex =
    Seq (plus1 (Atom (word_chars @ ''-.'')))
      (Seq (Atom ''@'')
        (Seq (plus1 (Seq (plus1 (Atom (word_chars @ ''-''))) (Atom ''.'')))
          (Seq (Atom (word_chars @ ''-''))
            (Seq (Atom (word_chars @ ''-''))
              (Seq (Alt One (Atom (word_chars @ ''-'')))
                   (Alt One (Atom (word_chars @ ''-''))))))))"

section \<open>AdminPanel\<close>

text \<open>A table row: \<open>{...client, instance_id: client.id}\<close>.\<close>

record client_row = client_rec +
  instance_id :: string

definition mapClient :: "client_rec \<Rightarrow> client_row" where
  "mapClient c =
    \<lparr>c_id = c_id c, c_name = c_name c, c_email = c_email c, c_unique_url = c_unique_url c,
     c_status = c_status c, c_connected_phone = c_connected_phone c, instance_id = c_id c\<rparr>"

record admin =
  clients :: "client_row list"
  loadingStates :: "string \<Rightarrow> bool option"
  error :: "string option"
  formError :: "string option"
  successMessage :: "string option"
  showAddForm :: bool
  showEditEmailForm :: bool
  editingClient :: "client_row option"
  newEmail :: string
  effects :: "effect list"

text \<open>
  \<open>fetchWithRetry\<close> (AdminPanel.jsx, lines 57-70): the \<open>for\<close> loop from index \<open>i\<close>.
  \<open>Some (Inr r)\<close> is the returned response, \<open>Some (Inl e)\<close> the rethrown error, and
  \<open>None\<close> the \<open>undefined\<close> of a loop that ends without returning.
\<close>

function fetchWithRetry_from ::
    "(effect list \<Rightarrow> axios_error + 'a) \<Rightarrow> request \<Rightarrow> nat \<Rightarrow> nat \<Rightarrow> nat \<Rightarrow> effect list
      \<Rightarrow> (axios_error + 'a) option \<times> effect list" where
  "fetchWithRetry_from call req retries delay i t =
    (if i < retries
     then
       (case call t of
          Inr response \<Rightarrow> (Some (Inr response), t @ [Net req])
        | Inl e \<Rightarrow>
            (if i < retries - 1 \<and> err_code e = Some ''ERR_NETWORK''
             then fetchWithRetry_from call req retries delay (i + 1) (t @ [Net req, Sleep delay])
             else (Some (Inl e), t @ [Net req])))
     else (None, t))"
  by pat_completeness auto
termination
  by (relation "measure (\<lambda>(call, req, retries, delay, i, t). retries - i)") auto

declare fetchWithRetry_from.simps [simp del]

definition fetchWithRetry ::
    "(effect list \<Rightarrow> axios_error + 'a) \<Rightarrow> request \<Rightarrow> effect list
      \<Rightarrow> (axios_error + 'a) option \<times> effect list" where
  "fetchWithRetry call req t = fetchWithRetry_from call req 3 1000 0 t"

text \<open>\<open>fetchClients\<close> (lines 72-90).\<close>

definition fetchClients :: "backend \<Rightarrow> admin \<Rightarrow> admin" where
  "fetchClients be a =
    (case fetchWithRetry (get_clients be) GetClients (effects a) of
       (Some (Inr data), t) \<Rightarrow>
         a\<lparr>clients := map mapClient (case data of None \<Rightarrow> [] | Some cs \<Rightarrow> cs),
           error := None,
           loadingStates := (loadingStates a)(''fetchClients'' \<mapsto> False),
           effects := t\<rparr>
     | (Some (Inl e), t) \<Rightarrow>
         a\<lparr>error := Some (or_default (err_detail e) ''No se pudieron cargar los clientes''),
           loadingStates := (loadingStates a)(''fetchClients'' \<mapsto> False),
           effects := t\<rparr>
     | (None, t) \<Rightarrow>
         a\<lparr>error := Some ''No se pudieron cargar los clientes'',
           loadingStates := (loadingStates a)(''fetchClients'' \<mapsto> False),
           effects := t\<rparr>)"

text \<open>
  \<open>validateForm\<close> and \<open>handleSubmit\<close> (lines 139-183) read \<open>formData\<close> and call
  \<open>setFormData\<close>. The component declares neither (its state declarations are lines
  23-37), nor does the module, so both are free identifiers: they resolve in the
  enclosing scopes, given here as \<open>scope\<close>, and evaluating an identifier with no
  binding throws a \<open>ReferenceError\<close>.
\<close>

datatype binding = FormObject form_data | FormSetter

type_synonym scope = "string \<Rightarrow> binding option"

definition resolve_formData :: "scope \<Rightarrow> js_error + form_data" where
  "resolve_formData sc =
    (case sc ''formData'' of
       None \<Rightarrow> Inl ReferenceError
     | Some (FormObject fd) \<Rightarrow> Inr fd
     | Some FormSetter \<Rightarrow> Inl TypeError)"

definition resolve_setFormData :: "scope \<Rightarrow> js_error + unit" where
  "resolve_setFormData sc =
    (case sc ''setFormData'' of
       None \<Rightarrow> Inl ReferenceError
     | Some FormSetter \<Rightarrow> Inr ()
     | Some (FormObject fd) \<Rightarrow> Inl TypeError)"

definition validateForm :: "scope \<Rightarrow> admin \<Rightarrow> js_error + bool \<times> admin" where
  "validateForm sc a =
    (case resolve_formData sc of
       Inl err \<Rightarrow> Inl err
     | Inr formData \<Rightarrow>
        (if \<not> matches email_regex (f_email formData)
         then Inr (False, a\<lparr>formError := Some ''Por favor, ingrese un correo electronico valido''\<rparr>)
         else if length (f_name formData) < 3
         then Inr (False, a\<lparr>formError := Some ''El nombre debe tener al menos 3 caracteres''\<rparr>)
         else if f_openai_api_key formData = []
         then Inr (False, a\<lparr>formError := Some ''La clave de API de OpenAI es requerida''\<rparr>)
         else if f_openai_assistant_id formData = []
         then Inr (False, a\<lparr>formError := Some ''El ID del asistente de OpenAI es requerido''\<rparr>)
         else Inr (True, a)))"

text \<open>
  \<open>handleSubmit\<close>: the first component is the error the handler's promise rejects
  with, if any; the second is the state it leaves. An exception inside the \<open>try\<close>
  block is caught there and becomes a form error.
\<close>

definition createClient_failed :: string where
  "createClient_failed = ''Error al crear el cliente. Por favor, verifica los datos e intenta de nuevo.''"

definition handleSubmit :: "scope \<Rightarrow> backend \<Rightarrow> admin \<Rightarrow> js_error option \<times> admin" where
  "handleSubmit sc be a =
    (case validateForm sc (a\<lparr>formError := None\<rparr>) of
       Inl err \<Rightarrow> (Some err, a\<lparr>formError := None\<rparr>)
     | Inr (False, a1) \<Rightarrow> (None, a1)
     | Inr (True, a1) \<Rightarrow>
        (case resolve_formData sc of
           Inl err \<Rightarrow>
             (None, a1\<lparr>formError := Some createClient_failed,
                       loadingStates := (loadingStates a1)(''createClient'' \<mapsto> False)\<rparr>)
         | Inr formData \<Rightarrow>
            (case fetchWithRetry (\<lambda>h. mutate be h (PostClients formData)) (PostClients formData)
                    (effects a1) of
               (Some (Inl e), t) \<Rightarrow>
                 (None, a1\<lparr>formError := Some (or_default (err_detail e) createClient_failed),
                           loadingStates := (loadingStates a1)(''createClient'' \<mapsto> False),
                           effects := t\<rparr>)
             | (_, t) \<Rightarrow>
                 (case resolve_setFormData sc of
                    Inl err \<Rightarrow>
                      (None, a1\<lparr>formError := Some createClient_failed,
                                loadingStates := (loadingStates a1)(''createClient'' \<mapsto> False),
                                effects := t\<rparr>)
                  | Inr _ \<Rightarrow>
                      (let a2 = fetchClients be (a1\<lparr>showAddForm := False, effects := t\<rparr>)
                       in (None,
                           a2\<lparr>successMessage := Some ''Cliente creado exitosamente! Email enviado.'',
                              loadingStates := (loadingStates a2)(''createClient'' \<mapsto> False),
                              effects := effects a2 @ [ClearSuccessAfter 3000]\<rparr>))))))"

text \<open>
  What the component renders (lines 369-395 and 468-560): the error screen, the
  spinner, or the main page, which shows the add-client modal with the fields of
  \<open>formData\<close> while \<open>showAddForm\<close> is set.
\<close>

datatype screen = ErrorScreen string | Spinner | MainPage "form_data option"

definition render :: "scope \<Rightarrow> admin \<Rightarrow> js_error + screen" where
  "render sc a =
    (if truthy (error a) \<and> loadingStates a ''fetchClients'' \<noteq> Some True
     then Inr (ErrorScreen (or_default (error a) []))
     else if loadingStates a ''fetchClients'' = Some True \<and> clients a = []
     then Inr Spinner
     else if showAddForm a
     then (case resolve_formData sc of Inl err \<Rightarrow> Inl err | Inr fd \<Rightarrow> Inr (MainPage (Some fd)))
     else Inr (MainPage None))"

text \<open>The button that opens the add-client modal (line 416).\<close>

definition openAddForm :: "admin \<Rightarrow> admin" where
  "openAddForm a = a\<lparr>showAddForm := True\<rparr>"

text \<open>
  The fleet mutations. Each marks its \<open>loadingStates\<close> entry, clears \<open>error\<close>,
  calls the backend through \<open>fetchWithRetry\<close> and clears the entry in \<open>finally\<close>.
\<close>

definition begin_op :: "string \<Rightarrow> admin \<Rightarrow> admin" where
  "begin_op key a = a\<lparr>loadingStates := (loadingStates a)(key \<mapsto> True), error := None\<rparr>"

definition end_op :: "string \<Rightarrow> admin \<Rightarrow> admin" where
  "end_op key a = a\<lparr>loadingStates := (loadingStates a)(key \<mapsto> False)\<rparr>"

definition notify_success :: "string \<Rightarrow> admin \<Rightarrow> admin" where
  "notify_success msg a =
    a\<lparr>successMessage := Some msg, effects := effects a @ [ClearSuccessAfter 3000]\<rparr>"

text \<open>\<open>toggleClient\<close> (lines 185-203).\<close>

definition toggle_action :: "bool \<Rightarrow> string" where
  "toggle_action is_active = (if is_active then ''connect'' else ''disconnect'')"

definition toggleClient :: "backend \<Rightarrow> string \<Rightarrow> bool \<Rightarrow> admin \<Rightarrow> admin" where
  "toggleClient be iid is_active a =
    (let a1 = begin_op (''toggle-'' @ iid) a;
         req = PostToggle iid (toggle_action is_active)
     in case fetchWithRetry (\<lambda>h. mutate be h req) req (effects a1) of
          (Some (Inl e), t) \<Rightarrow>
            end_op (''toggle-'' @ iid)
              (fetchClients be
                 (a1\<lparr>error := Some (or_default (err_detail e)
                                      (if is_active then ''No se pudo activar el cliente''
                                       else ''No se pudo desactivar el cliente'')),
                     effects := t\<rparr>))
        | (_, t) \<Rightarrow>
            end_op (''toggle-'' @ iid)
              (notify_success (if is_active then ''Cliente activado exitosamente!''
                               else ''Cliente desactivado exitosamente!'')
                 (fetchClients be (a1\<lparr>effects := t\<rparr>))))"

text \<open>\<open>deleteClient\<close> (lines 205-221).\<close>

definition delete_prompt :: "string \<Rightarrow> string" where
  "delete_prompt clientName =
    ''Estas seguro de eliminar al cliente '' @ [CHR 0x22] @ clientName @ [CHR 0x22]
      @ ''? Esta accion no se puede deshacer.''"

definition deleteClient ::
    "backend \<Rightarrow> (string \<Rightarrow> bool) \<Rightarrow> string \<Rightarrow> string \<Rightarrow> admin \<Rightarrow> admin" where
  "deleteClient be confirm iid clientName a =
    (if \<not> confirm (delete_prompt clientName)
     then a\<lparr>effects := effects a @ [Confirm (delete_prompt clientName) False]\<rparr>
     else
       (let a1 = begin_op (''delete-'' @ iid)
                   (a\<lparr>effects := effects a @ [Confirm (delete_prompt clientName) True]\<rparr>)
        in case fetchWithRetry (\<lambda>h. mutate be h (DeleteClient iid)) (DeleteClient iid) (effects a1) of
             (Some (Inl e), t) \<Rightarrow>
               end_op (''delete-'' @ iid)
                 (fetchClients be
                    (a1\<lparr>error := Some (or_default (err_detail e) ''No se pudo eliminar el cliente''),
                        effects := t\<rparr>))
           | (_, t) \<Rightarrow>
               end_op (''delete-'' @ iid)
                 (notify_success ''Cliente eliminado exitosamente!''
                    (a1\<lparr>clients := filter (\<lambda>client. instance_id client \<noteq> iid) (clients a1),
                        effects := t\<rparr>))))"

text \<open>\<open>updateClientEmail\<close> (lines 223-248).\<close>

definition updateClientEmail :: "backend \<Rightarrow> admin \<Rightarrow> admin" where
  "updateClientEmail be a =
    (case editingClient a of
       None \<Rightarrow> a\<lparr>error := Some ''Por favor, ingrese un correo electronico valido''\<rparr>
     | Some ec \<Rightarrow>
        (if \<not> matches email_regex (newEmail a)
         then a\<lparr>error := Some ''Por favor, ingrese un correo electronico valido''\<rparr>
         else
           (let a1 = begin_op (''updateEmail-'' @ instance_id ec) a;
                req = PutEmail (instance_id ec) (newEmail a)
            in case fetchWithRetry (\<lambda>h. mutate be h req) req (effects a1) of
                 (Some (Inl e), t) \<Rightarrow>
                   end_op (''updateEmail-'' @ instance_id ec)
                     (a1\<lparr>error := Some (or_default (err_detail e) ''No se pudo actualizar el email''),
                         effects := t\<rparr>)
               | (_, t) \<Rightarrow>
                   end_op (''updateEmail-'' @ instance_id ec)
                     (notify_success ''Email actualizado exitosamente!''
                        (fetchClients be
                           (a1\<lparr>showEditEmailForm := False, editingClient := None,
                               newEmail := [], effects := t\<rparr>))))))"

text \<open>\<open>resendEmail\<close> (lines 250-264).\<close>

definition resend_prompt :: "string \<Rightarrow> string" where
  "resend_prompt clientEmail = ''Reenviar email de invitacion a '' @ clientEmail @ ''?''"

definition resendEmail ::
    "backend \<Rightarrow> (string \<Rightarrow> bool) \<Rightarrow> string \<Rightarrow> string \<Rightarrow> admin \<Rightarrow> admin" where
  "resendEmail be confirm iid clientEmail a =
    (if \<not> confirm (resend_prompt clientEmail)
     then a\<lparr>effects := effects a @ [Confirm (resend_prompt clientEmail) False]\<rparr>
     else
       (let a1 = begin_op (''resendEmail-'' @ iid)
                   (a\<lparr>effects := effects a @ [Confirm (resend_prompt clientEmail) True]\<rparr>)
        in case fetchWithRetry (\<lambda>h. mutate be h (PostResendEmail iid)) (PostResendEmail iid)
                  (effects a1) of
             (Some (Inl e), t) \<Rightarrow>
               end_op (''resendEmail-'' @ iid)
                 (a1\<lparr>error := Some (or_default (err_detail e) ''No se pudo reenviar el email''),
                     effects := t\<rparr>)
           | (_, t) \<Rightarrow>
               end_op (''resendEmail-'' @ iid)
                 (notify_success (''Email reenviado exitosamente a '' @ clientEmail)
                    (a1\<lparr>effects := t\<rparr>))))"

text \<open>
  \<open>socket.onmessage\<close> of \<open>AdminPanel\<close> (lines 318-332): the rows of the client the
  event names take its status and its phone; the others are kept.
\<close>

definition admin_onmessage :: "push_event \<Rightarrow> admin \<Rightarrow> admin" where
  "admin_onmessage data a =
    a\<lparr>clients :=
        map (\<lambda>client.
               if Id (instance_id client) = ev_clientId data
               then client\<lparr>c_status := ev_status data, c_connected_phone := ev_phone data\<rparr>
               else client)
            (clients a)\<rparr>"

section \<open>Properties and sample inputs\<close>

text \<open>The effects that are network requests.\<close>

fun is_net :: "effect \<Rightarrow> bool" where
  "is_net (Net r) = True"
| "is_net e = False"

text \<open>The invariant of the data model: no QR payload is held while the status is open.\<close>

definition qr_cleared_when_open :: "view \<Rightarrow> bool" where
  "qr_cleared_when_open v =
    (case clientData v of
       None \<Rightarrow> True
     | Some d \<Rightarrow> if status (whatsapp d) = ''open'' then qrCode v = None else True)"

text \<open>A rejected request with the given HTTP status and \<open>detail\<close>.\<close>

definition http_error :: "nat option \<Rightarrow> string option \<Rightarrow> axios_error" where
  "http_error st d = \<lparr>err_code = None, err_status = st, err_detail = d, err_message = None\<rparr>"

text \<open>A backend that gives the same answer to every call of an endpoint.\<close>

definition fixed_backend ::
    "axios_error + landing_data \<Rightarrow> axios_error + string \<Rightarrow> axios_error + qr_data
      \<Rightarrow> axios_error + client_rec list option \<Rightarrow> axios_error + unit \<Rightarrow> backend" where
  "fixed_backend l s q cs m =
    \<lparr>get_landing = (\<lambda>h u. l), get_status = (\<lambda>h i. s), get_qr = (\<lambda>h i. q),
     get_clients = (\<lambda>h. cs), mutate = (\<lambda>h r. m)\<rparr>"

definition acme :: landing_data where
  "acme =
    \<lparr>l_id = ''c1'', l_name = ''Acme Law'', l_email = ''info@acme.cl'', l_status = Some ''pending'',
     l_connected = False, l_connected_phone = None, l_messageCount = 0, l_pausedCount = 0,
     l_globalPause = False\<rparr>"

definition acme_rec :: client_rec where
  "acme_rec =
    \<lparr>c_id = ''c1'', c_name = ''Acme Law'', c_email = ''info@acme.cl'', c_unique_url = ''acme-law'',
     c_status = ''open'', c_connected_phone = Some ''56911112222''\<rparr>"

definition other_rec :: client_rec where
  "other_rec =
    \<lparr>c_id = ''c2'', c_name = ''Beta'', c_email = ''hola@beta.cl'', c_unique_url = ''beta'',
     c_status = ''close'', c_connected_phone = None\<rparr>"

definition no_qr :: qr_data where
  "no_qr = \<lparr>qr = None, qr_error = None, qr_state = None, qr_connected_phone = None\<rparr>"

text \<open>The state of a page right after mounting.\<close>

definition initial_view :: view where
  "initial_view =
    \<lparr>clientData = None, qrCode = None, loading = True, errorMessage = None,
     refreshing = False, retryCount = 0, trace = []\<rparr>"

text \<open>The landing page showing client \<open>c1\<close> while it pairs, with a QR code on screen.\<close>

definition pairing_view :: view where
  "pairing_view =
    \<lparr>clientData = Some (newClientData acme ''connecting''), qrCode = Some ''data:qr'',
     loading = False, errorMessage = None, refreshing = False, retryCount = 0, trace = []\<rparr>"

definition initial_admin :: admin where
  "initial_admin =
    \<lparr>clients = [], loadingStates = Map.empty, error = None, formError = None,
     successMessage = None, showAddForm = False, showEditEmailForm = False,
     editingClient = None, newEmail = [], effects = []\<rparr>"

definition listing_admin :: admin where
  "listing_admin = initial_admin\<lparr>clients := [mapClient acme_rec, mapClient other_rec]\<rparr>"

definition accept :: "string \<Rightarrow> bool" where
  "accept prompt = True"

definition decline :: "string \<Rightarrow> bool" where
  "decline prompt = False"

text \<open>A scope in which neither \<open>formData\<close> nor \<open>setFormData\<close> is bound.\<close>

definition no_bindings :: scope where
  "no_bindings = Map.empty"

text \<open>Two ways the QR request can be rejected.\<close>

definition instance_gone :: axios_error where
  "instance_gone = http_error (Some 404) (Some ''Instance c1 does not exist'')"

definition server_down :: axios_error where
  "server_down = http_error (Some 500) (Some ''Internal Server Error'')"

definition unauthorized :: axios_error where
  "unauthorized = http_error (Some 401) None"

definition forbidden :: axios_error where
  "forbidden = http_error (Some 403) None"

text \<open>The QR request answered without a payload and with the same message.\<close>

definition instance_gone_answer :: qr_data where
  "instance_gone_answer =
    \<lparr>qr = None, qr_error = Some ''Instance c1 does not exist'', qr_state = None,
     qr_connected_phone = None\<rparr>"

text \<open>
  What a page displays of the connection: status, connected flag and phone of the
  loaded client, the QR payload and the error message.
\<close>

definition displayed ::
    "view \<Rightarrow> (string \<times> bool \<times> string option) option \<times> string option \<times> string option" where
  "displayed v =
    ((case clientData v of
        None \<Rightarrow> None
      | Some d \<Rightarrow> Some (status (whatsapp d), connected (whatsapp d), connected_phone (whatsapp d))),
     qrCode v, errorMessage v)"

definition outcome_displayed ::
    "js_error + view
      \<Rightarrow> ((string \<times> bool \<times> string option) option \<times> string option \<times> string option) option" where
  "outcome_displayed r = (case r of Inl err \<Rightarrow> None | Inr v \<Rightarrow> Some (displayed v))"

text \<open>Push events: client \<open>c1\<close> has paired, client \<open>c1\<close> has closed, news of client \<open>c2\<close>.\<close>

definition event_open :: push_event where
  "event_open = \<lparr>ev_clientId = Id ''c1'', ev_status = ''open'', ev_phone = None, ev_qrCode = None\<rparr>"

definition event_close :: push_event where
  "event_close = \<lparr>ev_clientId = Id ''c1'', ev_status = ''close'', ev_phone = None, ev_qrCode = None\<rparr>"

definition event_other :: push_event where
  "event_other =
    \<lparr>ev_clientId = Id ''c2'', ev_status = ''open'', ev_phone = Some ''56933334444'',
     ev_qrCode = Some ''data:other''\<rparr>"


text \<open>A form whose name is too short, and a scope in which it is bound to \<open>formData\<close>.\<close>

definition short_name_form :: form_data where
  "short_name_form =
    \<lparr>f_name = ''ab'', f_email = ''info@acme.cl'', f_openai_api_key = ''sk-1'',
     f_openai_assistant_id = ''asst_1''\<rparr>"

definition bound_form :: "form_data \<Rightarrow> scope" where
  "bound_form fd = [''formData'' \<mapsto> FormObject fd, ''setFormData'' \<mapsto> FormSetter]"

text \<open>The admin panel with the add-client modal open, and with the e-mail editor open.\<close>

definition adding_admin :: admin where
  "adding_admin = listing_admin\<lparr>showAddForm := True\<rparr>"

definition editing_admin :: admin where
  "editing_admin =
    listing_admin\<lparr>showEditEmailForm := True, editingClient := Some (mapClient acme_rec),
                   newEmail := ''new@acme.cl''\<rparr>"

text \<open>The landing page of client \<open>c1\<close> once it is connected.\<close>

definition connected_view :: view where
  "connected_view =
    \<lparr>clientData = Some (newClientData acme ''open''), qrCode = None, loading = False,
     errorMessage = None, refreshing = False, retryCount = 0, trace = []\<rparr>"

section \<open>Retrying the QR fetch\<close>

lemma fetchQRCode_retry:
  "\<not> is_connected cd \<Longrightarrow> get_qr be (trace v) i = Inl e \<Longrightarrow>
   instance_missing (errorMsg e) \<Longrightarrow> retryCount v < maxRetries \<Longrightarrow>
   fetchQRCode be cd i v =
     (fetchQRCode be cd i
        ((emit (Sleep 2000) (emit (Net (GetQr i)) v))
           \<lparr>qrCode := None, errorMessage := Some (errorMsg e),
            retryCount := retryCount v + 1, refreshing := True\<rparr>))\<lparr>refreshing := False\<rparr>"
  by (subst fetchQRCode.simps) simp

lemma fetchQRCode_giveup:
  "\<not> is_connected cd \<Longrightarrow> get_qr be (trace v) i = Inl e \<Longrightarrow>
   \<not> instance_missing (errorMsg e) \<or> \<not> retryCount v < maxRetries \<Longrightarrow>
   fetchQRCode be cd i v =
     (emit (ToastError (errorMsg e)) (emit (Net (GetQr i)) v))
        \<lparr>qrCode := None, errorMessage := Some (errorMsg e), refreshing := False\<rparr>"
  by (subst fetchQRCode.simps) auto

lemma fetchQRCode_response:
  "\<not> is_connected cd \<Longrightarrow> get_qr be (trace v) i = Inr d \<Longrightarrow>
   fetchQRCode be cd i v =
     (if truthy (qr d)
      then (emit (Net (GetQr i)) v)
             \<lparr>qrCode := qr d, errorMessage := None, retryCount := 0, refreshing := False\<rparr>
      else (emit (Net (GetQr i)) v)
             \<lparr>qrCode := None,
              errorMessage := Some (or_default (qr_error d) ''No se pudo cargar el codigo QR.''),
              refreshing := False\<rparr>)"
  by (subst fetchQRCode.simps) simp

lemma fetchQRCode_persistent:
  assumes nc: "\<not> is_connected cd"
    and fail: "\<And>h. get_qr be h i = Inl e"
    and miss: "instance_missing (errorMsg e)"
  shows "n = maxRetries - retryCount v \<Longrightarrow>
     trace (fetchQRCode be cd i v) =
       trace v @ concat (replicate n [Net (GetQr i), Sleep 2000])
         @ [Net (GetQr i), ToastError (errorMsg e)]
     \<and> errorMessage (fetchQRCode be cd i v) = Some (errorMsg e)
     \<and> qrCode (fetchQRCode be cd i v) = None"
proof (induction n arbitrary: v)
  case 0
  then have "\<not> retryCount v < maxRetries" by simp
  with fetchQRCode_giveup [OF nc fail, of v] show ?case
    by (simp add: emit_def)
next
  case (Suc n)
  then have lt: "retryCount v < maxRetries" by simp
  let ?v = "(emit (Sleep 2000) (emit (Net (GetQr i)) v))
           \<lparr>qrCode := None, errorMessage := Some (errorMsg e),
            retryCount := retryCount v + 1, refreshing := True\<rparr>"
  have "n = maxRetries - retryCount ?v"
    using Suc.prems by (simp add: emit_def)
  from Suc.IH [OF this] fetchQRCode_retry [OF nc fail miss lt]
  show ?case by (simp add: emit_def)
qed

lemma fetchQRCode_bounded:
  assumes nc: "\<not> is_connected cd"
  shows "n = maxRetries - retryCount v \<Longrightarrow>
     \<exists>k rest. k \<le> n \<and>
       trace (fetchQRCode be cd i v) =
         trace v @ concat (replicate k [Net (GetQr i), Sleep 2000]) @ Net (GetQr i) # rest
       \<and> (rest = [] \<or> (\<exists>m. rest = [ToastError m] \<and> errorMessage (fetchQRCode be cd i v) = Some m))"
proof (induction n arbitrary: v)
  case 0
  then have nlt: "\<not> retryCount v < maxRetries" by simp
  show ?case
  proof (cases "get_qr be (trace v) i")
    case (Inl e)
    with fetchQRCode_giveup [OF nc Inl] nlt show ?thesis
      by (intro exI [of _ 0]) (simp add: emit_def)
  next
    case (Inr d)
    with fetchQRCode_response [OF nc Inr] show ?thesis
      by (intro exI [of _ 0] exI [of _ "[]"]) (simp add: emit_def)
  qed
next
  case (Suc n)
  then have lt: "retryCount v < maxRetries" by simp
  show ?case
  proof (cases "get_qr be (trace v) i")
    case (Inr d)
    with fetchQRCode_response [OF nc Inr] show ?thesis
      by (intro exI [of _ 0] exI [of _ "[]"]) (simp add: emit_def)
  next
    case (Inl e)
    show ?thesis
    proof (cases "instance_missing (errorMsg e)")
      case False
      with fetchQRCode_giveup [OF nc Inl] show ?thesis
        by (intro exI [of _ 0]) (simp add: emit_def)
    next
      case True
      let ?v = "(emit (Sleep 2000) (emit (Net (GetQr i)) v))
           \<lparr>qrCode := None, errorMessage := Some (errorMsg e),
            retryCount := retryCount v + 1, refreshing := True\<rparr>"
      have "n = maxRetries - retryCount ?v"
        using Suc.prems by (simp add: emit_def)
      from Suc.IH [OF this] obtain k rest where k: "k \<le> n"
        and tr: "trace (fetchQRCode be cd i ?v) =
           trace ?v @ concat (replicate k [Net (GetQr i), Sleep 2000]) @ Net (GetQr i) # rest"
        and rest: "rest = [] \<or> (\<exists>m. rest = [ToastError m] \<and> errorMessage (fetchQRCode be cd i ?v) = Some m)"
        by blast
      from fetchQRCode_retry [OF nc Inl True lt] k tr rest show ?thesis
        by (intro exI [of _ "Suc k"] exI [of _ rest]) (auto simp add: emit_def)
    qed
  qed
qed


lemma landing_qr_retry:
  "u \<noteq> [] \<Longrightarrow> get_landing be (trace v) u = Inr c \<Longrightarrow>
   get_status be (trace v @ [Net (GetLanding u)]) (l_id c) = Inr st \<Longrightarrow> st \<noteq> ''open'' \<Longrightarrow>
   get_qr be (trace v @ [Net (GetLanding u), Net (GetStatus (l_id c))]) (l_id c) = Inl e \<Longrightarrow>
   instance_missing (qrErrorMsg e) \<Longrightarrow> retryCount v < maxRetries \<Longrightarrow>
   fetchClientData_landing be (Some u) True v =
     (fetchClientData_landing be (Some u) True
        ((emit (Sleep 2000)
           (emit (Net (GetQr (l_id c)))
             (emit (Net (GetStatus (l_id c))) (emit (Net (GetLanding u)) v))))
           \<lparr>clientData := Some (newClientData c st), qrCode := None,
            errorMessage := Some (qrErrorMsg e),
            retryCount := retryCount v + 1, loading := True\<rparr>))
       \<lparr>loading := False, refreshing := False\<rparr>"
  by (subst fetchClientData_landing.simps) simp

lemma landing_qr_giveup:
  "u \<noteq> [] \<Longrightarrow> get_landing be (trace v) u = Inr c \<Longrightarrow>
   get_status be (trace v @ [Net (GetLanding u)]) (l_id c) = Inr st \<Longrightarrow> st \<noteq> ''open'' \<Longrightarrow>
   get_qr be (trace v @ [Net (GetLanding u), Net (GetStatus (l_id c))]) (l_id c) = Inl e \<Longrightarrow>
   \<not> instance_missing (qrErrorMsg e) \<or> \<not> retryCount v < maxRetries \<Longrightarrow>
   fetchClientData_landing be (Some u) True v =
     (emit (Net (GetQr (l_id c)))
        (emit (Net (GetStatus (l_id c))) (emit (Net (GetLanding u)) v)))
       \<lparr>clientData := Some (newClientData c st), qrCode := None,
        errorMessage := Some (qrErrorMsg e), loading := False, refreshing := False\<rparr>"
  by (subst fetchClientData_landing.simps) auto

lemma landing_qr_persistent:
  assumes u: "u \<noteq> []"
    and L: "\<And>h. get_landing be h u = Inr c"
    and S: "\<And>h. get_status be h (l_id c) = Inr st"
    and st: "st \<noteq> ''open''"
    and Q: "\<And>h. get_qr be h (l_id c) = Inl e"
    and miss: "instance_missing (qrErrorMsg e)"
  shows "n = maxRetries - retryCount v \<Longrightarrow>
     trace (fetchClientData_landing be (Some u) True v) =
       trace v @ concat (replicate n
           [Net (GetLanding u), Net (GetStatus (l_id c)), Net (GetQr (l_id c)), Sleep 2000])
         @ [Net (GetLanding u), Net (GetStatus (l_id c)), Net (GetQr (l_id c))]
     \<and> errorMessage (fetchClientData_landing be (Some u) True v) = Some (qrErrorMsg e)
     \<and> qrCode (fetchClientData_landing be (Some u) True v) = None"
proof (induction n arbitrary: v)
  case 0
  then have "\<not> retryCount v < maxRetries" by simp
  with landing_qr_giveup [OF u L S st Q, of v] show ?case
    by (simp add: emit_def)
next
  case (Suc n)
  then have lt: "retryCount v < maxRetries" by simp
  let ?v = "(emit (Sleep 2000)
           (emit (Net (GetQr (l_id c)))
             (emit (Net (GetStatus (l_id c))) (emit (Net (GetLanding u)) v))))
           \<lparr>clientData := Some (newClientData c st), qrCode := None,
            errorMessage := Some (qrErrorMsg e),
            retryCount := retryCount v + 1, loading := True\<rparr>"
  have "n = maxRetries - retryCount ?v"
    using Suc.prems by (simp add: emit_def)
  from Suc.IH [OF this] landing_qr_retry [OF u L S st Q miss lt]
  show ?case by (simp add: emit_def)
qed

text \<open>
  The retry belongs to the \<open>catch\<close> block only. A QR request that is answered
  without a payload, even with the same message in its \<open>error\<close> field, is not
  repeated: the message is shown and the fetch ends.
\<close>

lemma qr_error_field_not_retried:
  assumes "\<not> is_connected cd" and "get_qr be (trace v) i = Inr d" and "\<not> truthy (qr d)"
  shows "trace (fetchQRCode be cd i v) = trace v @ [Net (GetQr i)]"
    and "errorMessage (fetchQRCode be cd i v) =
           Some (or_default (qr_error d) ''No se pudo cargar el codigo QR.'')"
  using assms by (simp_all add: fetchQRCode_response emit_def)

text \<open>
  The \<open>catch\<close> block retries. A QR request that is rejected with a \<open>detail\<close>
  containing \<open>Instance\<close> and \<open>does not exist\<close> is repeated while the retry counter
  is below 3, after a wait of 2000 ms each time: with the request rejected that way
  every time there are \<open>3 - retryCount\<close> retries (three from a fresh counter), and
  then the error is surfaced. A rejection with any other message is not retried and
  is surfaced at once. Whatever the backend answers, at most \<open>3 - retryCount\<close>
  retries are made, each after 2000 ms. This holds for \<open>fetchQRCode\<close> of
  \<open>QRAssistantPage\<close>, which also shows a toast, and for \<open>fetchClientData\<close> of
  \<open>ClientLanding\<close>, whose retry repeats the landing and status requests as well.
\<close>

theorem qr_fetch_retry_policy:
  "(\<not> is_connected cd \<and> (\<forall>h. get_qr be h i = Inl e) \<and> instance_missing (errorMsg e) \<longrightarrow>
      trace (fetchQRCode be cd i v) =
        trace v @ concat (replicate (3 - retryCount v) [Net (GetQr i), Sleep 2000])
          @ [Net (GetQr i), ToastError (errorMsg e)]
      \<and> errorMessage (fetchQRCode be cd i v) = Some (errorMsg e))
   \<and> (\<not> is_connected cd \<and> get_qr be (trace v) i = Inl e \<and> \<not> instance_missing (errorMsg e) \<longrightarrow>
      trace (fetchQRCode be cd i v) = trace v @ [Net (GetQr i), ToastError (errorMsg e)]
      \<and> errorMessage (fetchQRCode be cd i v) = Some (errorMsg e))
   \<and> (\<not> is_connected cd \<longrightarrow>
      (\<exists>k rest. k \<le> 3 - retryCount v \<and>
         trace (fetchQRCode be cd i v) =
           trace v @ concat (replicate k [Net (GetQr i), Sleep 2000]) @ Net (GetQr i) # rest
         \<and> (rest = [] \<or> (\<exists>m. rest = [ToastError m]
               \<and> errorMessage (fetchQRCode be cd i v) = Some m))))
   \<and> (u \<noteq> [] \<and> (\<forall>h. get_landing be h u = Inr c) \<and> (\<forall>h. get_status be h (l_id c) = Inr st)
        \<and> st \<noteq> ''open'' \<and> (\<forall>h. get_qr be h (l_id c) = Inl e) \<and> instance_missing (qrErrorMsg e) \<longrightarrow>
      trace (fetchClientData_landing be (Some u) True v) =
        trace v @ concat (replicate (3 - retryCount v)
            [Net (GetLanding u), Net (GetStatus (l_id c)), Net (GetQr (l_id c)), Sleep 2000])
          @ [Net (GetLanding u), Net (GetStatus (l_id c)), Net (GetQr (l_id c))]
      \<and> errorMessage (fetchClientData_landing be (Some u) True v) = Some (qrErrorMsg e))
   \<and> (u \<noteq> [] \<and> get_landing be (trace v) u = Inr c
        \<and> get_status be (trace v @ [Net (GetLanding u)]) (l_id c) = Inr st \<and> st \<noteq> ''open''
        \<and> get_qr be (trace v @ [Net (GetLanding u), Net (GetStatus (l_id c))]) (l_id c) = Inl e
        \<and> \<not> instance_missing (qrErrorMsg e) \<longrightarrow>
      trace (fetchClientData_landing be (Some u) True v) =
        trace v @ [Net (GetLanding u), Net (GetStatus (l_id c)), Net (GetQr (l_id c))]
      \<and> errorMessage (fetchClientData_landing be (Some u) True v) = Some (qrErrorMsg e))"
proof (intro conjI impI)
  assume a: "\<not> is_connected cd \<and> (\<forall>h. get_qr be h i = Inl e) \<and> instance_missing (errorMsg e)"
  then have p: "trace (fetchQRCode be cd i v) =
       trace v @ concat (replicate (maxRetries - retryCount v) [Net (GetQr i), Sleep 2000])
         @ [Net (GetQr i), ToastError (errorMsg e)]
     \<and> errorMessage (fetchQRCode be cd i v) = Some (errorMsg e)
     \<and> qrCode (fetchQRCode be cd i v) = None"
    by (intro fetchQRCode_persistent) blast+
  from p show "trace (fetchQRCode be cd i v) =
        trace v @ concat (replicate (3 - retryCount v) [Net (GetQr i), Sleep 2000])
          @ [Net (GetQr i), ToastError (errorMsg e)]"
    by (simp add: maxRetries_def)
  from p show "errorMessage (fetchQRCode be cd i v) = Some (errorMsg e)" by simp
next
  assume a: "\<not> is_connected cd \<and> get_qr be (trace v) i = Inl e \<and> \<not> instance_missing (errorMsg e)"
  then have eq: "fetchQRCode be cd i v =
     (emit (ToastError (errorMsg e)) (emit (Net (GetQr i)) v))
        \<lparr>qrCode := None, errorMessage := Some (errorMsg e), refreshing := False\<rparr>"
    by (intro fetchQRCode_giveup) blast+
  show "trace (fetchQRCode be cd i v) = trace v @ [Net (GetQr i), ToastError (errorMsg e)]"
    by (simp add: eq emit_def)
  show "errorMessage (fetchQRCode be cd i v) = Some (errorMsg e)"
    by (simp add: eq)
next
  assume "\<not> is_connected cd"
  from fetchQRCode_bounded [OF this, of "maxRetries - retryCount v" v be i]
  show "\<exists>k rest. k \<le> 3 - retryCount v \<and>
         trace (fetchQRCode be cd i v) =
           trace v @ concat (replicate k [Net (GetQr i), Sleep 2000]) @ Net (GetQr i) # rest
         \<and> (rest = [] \<or> (\<exists>m. rest = [ToastError m]
               \<and> errorMessage (fetchQRCode be cd i v) = Some m))"
    by (simp add: maxRetries_def)
next
  assume a: "u \<noteq> [] \<and> (\<forall>h. get_landing be h u = Inr c) \<and> (\<forall>h. get_status be h (l_id c) = Inr st)
        \<and> st \<noteq> ''open'' \<and> (\<forall>h. get_qr be h (l_id c) = Inl e) \<and> instance_missing (qrErrorMsg e)"
  then have p: "trace (fetchClientData_landing be (Some u) True v) =
       trace v @ concat (replicate (maxRetries - retryCount v)
           [Net (GetLanding u), Net (GetStatus (l_id c)), Net (GetQr (l_id c)), Sleep 2000])
         @ [Net (GetLanding u), Net (GetStatus (l_id c)), Net (GetQr (l_id c))]
     \<and> errorMessage (fetchClientData_landing be (Some u) True v) = Some (qrErrorMsg e)
     \<and> qrCode (fetchClientData_landing be (Some u) True v) = None"
    by (intro landing_qr_persistent) blast+
  from p show "trace (fetchClientData_landing be (Some u) True v) =
        trace v @ concat (replicate (3 - retryCount v)
            [Net (GetLanding u), Net (GetStatus (l_id c)), Net (GetQr (l_id c)), Sleep 2000])
          @ [Net (GetLanding u), Net (GetStatus (l_id c)), Net (GetQr (l_id c))]"
    by (simp add: maxRetries_def)
  from p show "errorMessage (fetchClientData_landing be (Some u) True v) = Some (qrErrorMsg e)"
    by simp
next
  assume a: "u \<noteq> [] \<and> get_landing be (trace v) u = Inr c
        \<and> get_status be (trace v @ [Net (GetLanding u)]) (l_id c) = Inr st \<and> st \<noteq> ''open''
        \<and> get_qr be (trace v @ [Net (GetLanding u), Net (GetStatus (l_id c))]) (l_id c) = Inl e
        \<and> \<not> instance_missing (qrErrorMsg e)"
  then have eq: "fetchClientData_landing be (Some u) True v =
     (emit (Net (GetQr (l_id c)))
        (emit (Net (GetStatus (l_id c))) (emit (Net (GetLanding u)) v)))
       \<lparr>clientData := Some (newClientData c st), qrCode := None,
        errorMessage := Some (qrErrorMsg e), loading := False, refreshing := False\<rparr>"
    by (intro landing_qr_giveup) blast+
  show "trace (fetchClientData_landing be (Some u) True v) =
        trace v @ [Net (GetLanding u), Net (GetStatus (l_id c)), Net (GetQr (l_id c))]"
    by (simp add: eq emit_def)
  show "errorMessage (fetchClientData_landing be (Some u) True v) = Some (qrErrorMsg e)"
    by (simp add: eq)
qed

theorem qr_fetch_retry_policy_witness:
  "trace (fetchQRCode (fixed_backend (Inr acme) (Inr ''connecting'') (Inl instance_gone) (Inr None) (Inr ()))
            None ''c1'' initial_view) =
     [Net (GetQr ''c1''), Sleep 2000, Net (GetQr ''c1''), Sleep 2000, Net (GetQr ''c1''), Sleep 2000,
      Net (GetQr ''c1''), ToastError ''Instance c1 does not exist'']
   \<and> trace (fetchQRCode (fixed_backend (Inr acme) (Inr ''connecting'') (Inl server_down) (Inr None) (Inr ()))
            None ''c1'' initial_view) =
     [Net (GetQr ''c1''), ToastError ''Internal Server Error'']
   \<and> trace (fetchClientData_landing
              (fixed_backend (Inr acme) (Inr ''connecting'') (Inl instance_gone) (Inr None) (Inr ()))
            (Some ''acme-law'') True (initial_view\<lparr>retryCount := 2\<rparr>)) =
     [Net (GetLanding ''acme-law''), Net (GetStatus ''c1''), Net (GetQr ''c1''), Sleep 2000,
      Net (GetLanding ''acme-law''), Net (GetStatus ''c1''), Net (GetQr ''c1'')]"
proof -
  let ?gone = "fixed_backend (Inr acme) (Inr ''connecting'') (Inl instance_gone) (Inr None) (Inr ())"
  let ?down = "fixed_backend (Inr acme) (Inr ''connecting'') (Inl server_down) (Inr None) (Inr ())"
  have m1: "instance_missing (errorMsg instance_gone)"
    by (simp add: instance_missing_def errorMsg_def instance_gone_def http_error_def or_default_def)
  have m2: "\<not> instance_missing (errorMsg server_down)"
    by (simp add: instance_missing_def errorMsg_def server_down_def http_error_def or_default_def)
  have m3: "instance_missing (qrErrorMsg instance_gone)"
    by (simp add: instance_missing_def qrErrorMsg_def instance_gone_def http_error_def or_default_def)
  have nc: "\<not> is_connected None" by (simp add: is_connected_def)
  have g: "\<forall>h. get_qr ?gone h ''c1'' = Inl instance_gone" by (simp add: fixed_backend_def)
  have d: "get_qr ?down (trace initial_view) ''c1'' = Inl server_down" by (simp add: fixed_backend_def)
  have l: "\<forall>h. get_landing ?gone h ''acme-law'' = Inr acme"
    "\<forall>h. get_status ?gone h (l_id acme) = Inr ''connecting''"
    "\<forall>h. get_qr ?gone h (l_id acme) = Inl instance_gone"
    by (simp_all add: fixed_backend_def)
  from qr_fetch_retry_policy [of None ?gone "''c1''" instance_gone initial_view "''acme-law''" acme "''connecting''"]
    nc g m1
  have 1: "trace (fetchQRCode ?gone None ''c1'' initial_view) =
     [Net (GetQr ''c1''), Sleep 2000, Net (GetQr ''c1''), Sleep 2000, Net (GetQr ''c1''), Sleep 2000,
      Net (GetQr ''c1''), ToastError ''Instance c1 does not exist'']"
    by (simp add: initial_view_def numeral_3_eq_3 errorMsg_def instance_gone_def http_error_def or_default_def)
  from qr_fetch_retry_policy [of None ?down "''c1''" server_down initial_view "''acme-law''" acme "''connecting''"]
    nc d m2
  have 2: "trace (fetchQRCode ?down None ''c1'' initial_view) =
     [Net (GetQr ''c1''), ToastError ''Internal Server Error'']"
    by (simp add: initial_view_def errorMsg_def server_down_def http_error_def or_default_def)
  from qr_fetch_retry_policy [of None ?gone "''c1''" instance_gone "initial_view\<lparr>retryCount := 2\<rparr>" "''acme-law''" acme "''connecting''"]
    l m3
  have 3: "trace (fetchClientData_landing ?gone (Some ''acme-law'') True (initial_view\<lparr>retryCount := 2\<rparr>)) =
     [Net (GetLanding ''acme-law''), Net (GetStatus ''c1''), Net (GetQr ''c1''), Sleep 2000,
      Net (GetLanding ''acme-law''), Net (GetStatus ''c1''), Net (GetQr ''c1'')]"
    by (simp add: initial_view_def acme_def)
  from 1 2 3 show ?thesis by simp
qed



text \<open>
  C1. A QR fetch that fails with the backend's message that the instance does not
  exist is retried up to 3 times, 2000 ms apart, before the error is surfaced. The
  code does so only when the message comes as the \<open>detail\<close> of a rejected
  request. When the QR request is answered with \<open>{error: Instance c1 does not
  exist}\<close>, the shape the QR endpoint has for its errors, both pages make that one
  request, show the message and stop: no wait and no retry, although the message
  is one that \<open>instance_missing\<close> accepts.
\<close>

theorem qr_error_answer_not_retried:
  "trace (fetchQRCode
      (fixed_backend (Inr acme) (Inr ''connecting'') (Inr instance_gone_answer) (Inr None) (Inr ()))
      None ''c1'' initial_view) = [Net (GetQr ''c1'')]
   \<and> errorMessage (fetchQRCode
      (fixed_backend (Inr acme) (Inr ''connecting'') (Inr instance_gone_answer) (Inr None) (Inr ()))
      None ''c1'' initial_view) = Some ''Instance c1 does not exist''
   \<and> trace (fetchClientData_landing
      (fixed_backend (Inr acme) (Inr ''connecting'') (Inr instance_gone_answer) (Inr None) (Inr ()))
      (Some ''acme-law'') True initial_view) =
     [Net (GetLanding ''acme-law''), Net (GetStatus ''c1''), Net (GetQr ''c1'')]
   \<and> errorMessage (fetchClientData_landing
      (fixed_backend (Inr acme) (Inr ''connecting'') (Inr instance_gone_answer) (Inr None) (Inr ()))
      (Some ''acme-law'') True initial_view) = Some ''Instance c1 does not exist''
   \<and> instance_missing ''Instance c1 does not exist''"
  by (simp add: fetchQRCode.simps fetchClientData_landing.simps fixed_backend_def initial_view_def
      instance_gone_answer_def is_connected_def truthy_def or_default_def emit_def acme_def
      apply_qrResponse_def instance_missing_def)

section \<open>The QR payload while the connection is open\<close>

text \<open>
  Both fetch operations keep the invariant: whenever they store the status
  \<open>open\<close> they clear the QR payload, and their failure paths clear it too.
\<close>

lemma clientData_fetchQRCode: "clientData (fetchQRCode be cd i v) = clientData v"
proof (induction be cd i v rule: fetchQRCode.induct)
  case (1 be cd instance_id v)
  show ?case
    apply (subst fetchQRCode.simps)
    using 1 by (auto simp: emit_def split: sum.splits)
qed

lemma qr_page_fetch_clears_qr: "qr_cleared_when_open (fetchClientData be u v)"
  by (auto simp: fetchClientData_def qr_cleared_when_open_def qr_page_catch_def emit_def
      clientData_fetchQRCode qr_page_clientData_def split: sum.splits option.splits)


lemma qr_cleared_when_open_None: "qrCode w = None \<Longrightarrow> qr_cleared_when_open w"
  by (simp add: qr_cleared_when_open_def split: option.splits)

lemma qr_cleared_when_open_frame:
  "qr_cleared_when_open w \<Longrightarrow>
   qr_cleared_when_open (w\<lparr>errorMessage := m, loading := l, refreshing := r\<rparr>)"
  "qr_cleared_when_open w \<Longrightarrow> qr_cleared_when_open (w\<lparr>loading := l, refreshing := r\<rparr>)"
  by (simp_all add: qr_cleared_when_open_def split: option.splits)

lemma qr_cleared_when_open_apply_qrResponse:
  "st \<noteq> ''open'' \<Longrightarrow> clientData w = Some (newClientData c st) \<Longrightarrow>
   qr_cleared_when_open (apply_qrResponse (newClientData c st) d w)"
  by (simp add: qr_cleared_when_open_def apply_qrResponse_def newClientData_def)

lemma landing_fetch_keeps_qr_cleared:
  "qr_cleared_when_open v \<Longrightarrow> qr_cleared_when_open (fetchClientData_landing be u fq v)"
proof (induction be u fq v rule: fetchClientData_landing.induct)
  case (1 be unique_url fetchQr v)
  note inv = \<open>qr_cleared_when_open v\<close>
  show ?case
  proof (cases unique_url)
    case None
    with inv show ?thesis
      by (subst fetchClientData_landing.simps) (simp add: qr_cleared_when_open_frame)
  next
    case (Some u)
    show ?thesis
    proof (cases "u = []")
      case True
      with Some inv show ?thesis
        by (subst fetchClientData_landing.simps) (simp add: qr_cleared_when_open_frame)
    next
      case u: False
      show ?thesis
      proof (cases "get_landing be (trace v) u")
        case (Inl e)
        with Some u show ?thesis
          by (subst fetchClientData_landing.simps)
            (simp add: landing_catch_def qr_cleared_when_open_None)
      next
        case L: (Inr c)
        show ?thesis
        proof (cases "get_status be (trace v @ [Net (GetLanding u)]) (l_id c)")
          case (Inl e)
          with Some u L show ?thesis
            by (subst fetchClientData_landing.simps)
              (simp add: landing_catch_def qr_cleared_when_open_None)
        next
          case S: (Inr st)
          show ?thesis
          proof (cases "st \<noteq> ''open'' \<and> fetchQr")
            case False
            with Some u L S show ?thesis
              by (subst fetchClientData_landing.simps)
                (auto simp add: qr_cleared_when_open_None)
          next
            case go: True
            show ?thesis
            proof (cases "get_qr be (trace v @ [Net (GetLanding u), Net (GetStatus (l_id c))]) (l_id c)")
              case (Inr d)
              with Some u L S go show ?thesis
                by (subst fetchClientData_landing.simps)
                  (simp add: qr_cleared_when_open_frame qr_cleared_when_open_apply_qrResponse)
            next
              case Q: (Inl e)
              show ?thesis
              proof (cases "instance_missing (qrErrorMsg e) \<and> retryCount v < maxRetries")
                case False
                with Some u L S go Q show ?thesis
                  by (subst fetchClientData_landing.simps)
                    (auto simp add: qr_cleared_when_open_None)
              next
                case True
                let ?w = "(emit (Sleep 2000)
                            (emit (Net (GetQr (l_id c)))
                              (emit (Net (GetStatus (l_id c))) (emit (Net (GetLanding u)) v))))
                          \<lparr>clientData := Some (newClientData c st), qrCode := None,
                           errorMessage := Some (qrErrorMsg e),
                           retryCount := retryCount v + 1, loading := True\<rparr>"
                have "qr_cleared_when_open ?w"
                  by (simp add: qr_cleared_when_open_None)
                with "1.IH" [OF Some u L S _ Q] True go
                have "qr_cleared_when_open (fetchClientData_landing be unique_url fetchQr ?w)"
                  by simp
                with Some u L S go Q True show ?thesis
                  by (subst fetchClientData_landing.simps)
                    (simp add: qr_cleared_when_open_frame)
              qed
            qed
          qed
        qed
      qed
    qed
  qed
qed

text \<open>
  C2. No QR payload is held while the status is \<open>open\<close>, and every operation that
  updates the state keeps it so. The two lemmas above show it for the fetches. The
  push-event merge does not: on the landing page that shows a QR code for client
  \<open>c1\<close>, the event \<open>{clientId: c1, status: open}\<close> sets the status to \<open>open\<close> and
  leaves the QR payload in the state.
\<close>

theorem push_merge_keeps_qr_when_open:
  "outcome_displayed (landing_onmessage event_open pairing_view) =
     Some (Some (''open'', True, None), Some ''data:qr'', None)"
  by (simp add: outcome_displayed_def displayed_def landing_onmessage_def event_open_def
      pairing_view_def viewed_id_def newClientData_def acme_def truthy_def or_else_def)


section \<open>Merging push events\<close>

text \<open>
  C3. A push event whose \<open>clientId\<close> is not the identifier of the client on
  display leaves the landing page's state as it is, and with it everything the page
  displays. In the admin panel, every row with another identifier is kept, and an
  event that matches no row changes nothing.
\<close>

theorem push_for_other_client_ignored:
  "(ev_clientId data \<noteq> viewed_id v \<longrightarrow>
      landing_onmessage data v = Inr v
      \<and> outcome_displayed (landing_onmessage data v) = Some (displayed v))
   \<and> (i < length (clients a) \<and> Id (instance_id (clients a ! i)) \<noteq> ev_clientId data \<longrightarrow>
      clients (admin_onmessage data a) ! i = clients a ! i)
   \<and> ((\<forall>c \<in> set (clients a). Id (instance_id c) \<noteq> ev_clientId data) \<longrightarrow>
      admin_onmessage data a = a)"
proof (intro conjI impI)
  assume "ev_clientId data \<noteq> viewed_id v"
  then show "landing_onmessage data v = Inr v"
    by (simp add: landing_onmessage_def)
  then show "outcome_displayed (landing_onmessage data v) = Some (displayed v)"
    by (simp add: outcome_displayed_def)
next
  assume "i < length (clients a) \<and> Id (instance_id (clients a ! i)) \<noteq> ev_clientId data"
  then show "clients (admin_onmessage data a) ! i = clients a ! i"
    by (simp add: admin_onmessage_def)
next
  assume "\<forall>c \<in> set (clients a). Id (instance_id c) \<noteq> ev_clientId data"
  then have "map (\<lambda>client.
               if Id (instance_id client) = ev_clientId data
               then client\<lparr>c_status := ev_status data, c_connected_phone := ev_phone data\<rparr>
               else client) (clients a) = clients a"
    by (induction "clients a") (auto simp: map_idI)
  then show "admin_onmessage data a = a"
    by (simp add: admin_onmessage_def)
qed

theorem push_for_other_client_ignored_witness:
  "landing_onmessage event_other pairing_view = Inr pairing_view
   \<and> clients (admin_onmessage event_other listing_admin) ! 0 = mapClient acme_rec
   \<and> admin_onmessage event_open initial_admin = initial_admin"
proof -
  have 1: "ev_clientId event_other \<noteq> viewed_id pairing_view"
    by (simp add: event_other_def viewed_id_def pairing_view_def newClientData_def acme_def)
  have 2: "0 < length (clients listing_admin)
      \<and> Id (instance_id (clients listing_admin ! 0)) \<noteq> ev_clientId event_other"
    by (simp add: listing_admin_def initial_admin_def mapClient_def acme_rec_def event_other_def)
  have 3: "\<forall>c \<in> set (clients initial_admin). Id (instance_id c) \<noteq> ev_clientId event_open"
    by (simp add: initial_admin_def)
  from push_for_other_client_ignored [of event_other pairing_view 0 listing_admin] 1 2
  have a: "landing_onmessage event_other pairing_view = Inr pairing_view"
    and b: "clients (admin_onmessage event_other listing_admin) ! 0 = clients listing_admin ! 0"
    by blast+
  from push_for_other_client_ignored [of event_open pairing_view 0 initial_admin] 3
  have c: "admin_onmessage event_open initial_admin = initial_admin" by blast
  from a b c show ?thesis by (simp add: listing_admin_def)
qed

text \<open>
  C4. The merge of a push event for the matching client takes the event's status
  and keeps the previous phone when the event has none. The admin panel's handler
  misses the fallback that the landing page's handler has: the row of the matching
  client takes the event's phone as it comes, so an event without a phone wipes
  the phone the row had.
\<close>

theorem push_merge_admin_drops_phone:
  "ev_phone event_close = None
   \<and> map c_connected_phone (clients listing_admin) = [Some ''56911112222'', None]
   \<and> map c_connected_phone (clients (admin_onmessage event_close listing_admin)) = [None, None]"
  by (simp add: event_close_def listing_admin_def initial_admin_def admin_onmessage_def
      mapClient_def acme_rec_def other_rec_def)

text \<open>
  What the two handlers compute. On the landing page with a client loaded, a push
  event for that client yields a state whose status is the event's, whose connected
  flag is \<open>status = open\<close>, whose phone is the event's when that is a non-empty
  string and the previous phone otherwise; a non-empty QR payload in the event
  replaces the QR code and clears the error message, and without one both are kept.
  In the admin panel the row of the matching client takes the event's status and
  phone, and the number of rows does not change.
\<close>

theorem push_merge_result:
  "(ev_clientId data = viewed_id v \<and> clientData v = Some prev \<longrightarrow>
      (\<exists>v' cd'. landing_onmessage data v = Inr v' \<and> clientData v' = Some cd'
         \<and> status (whatsapp cd') = ev_status data
         \<and> connected (whatsapp cd') = (ev_status data = ''open'')
         \<and> connected_phone (whatsapp cd') =
             (if truthy (ev_phone data) then ev_phone data else connected_phone (whatsapp prev))
         \<and> client cd' = client prev
         \<and> qrCode v' = (if truthy (ev_qrCode data) then ev_qrCode data else qrCode v)
         \<and> errorMessage v' = (if truthy (ev_qrCode data) then None else errorMessage v)))
   \<and> (i < length (clients a) \<and> Id (instance_id (clients a ! i)) = ev_clientId data \<longrightarrow>
      clients (admin_onmessage data a) ! i =
        (clients a ! i)\<lparr>c_status := ev_status data, c_connected_phone := ev_phone data\<rparr>)
   \<and> length (clients (admin_onmessage data a)) = length (clients a)"
  by (auto simp: landing_onmessage_def or_else_def admin_onmessage_def)

theorem push_merge_result_witness:
  "outcome_displayed (landing_onmessage event_close pairing_view) =
     Some (Some (''close'', False, None), Some ''data:qr'', None)
   \<and> clients (admin_onmessage event_close listing_admin) ! 0 =
       (mapClient acme_rec)\<lparr>c_status := ''close'', c_connected_phone := None\<rparr>"
proof -
  have 1: "ev_clientId event_close = viewed_id pairing_view
      \<and> clientData pairing_view = Some (newClientData acme ''connecting'')"
    by (simp add: event_close_def viewed_id_def pairing_view_def newClientData_def acme_def)
  have 2: "0 < length (clients listing_admin)
      \<and> Id (instance_id (clients listing_admin ! 0)) = ev_clientId event_close"
    by (simp add: listing_admin_def initial_admin_def mapClient_def acme_rec_def event_close_def)
  from push_merge_result [of event_close pairing_view "newClientData acme ''connecting''" 0 listing_admin] 1 2
  obtain v' cd' where r: "landing_onmessage event_close pairing_view = Inr v'"
      "clientData v' = Some cd'" "status (whatsapp cd') = ev_status event_close"
      "connected (whatsapp cd') = (ev_status event_close = ''open'')"
      "connected_phone (whatsapp cd') =
             (if truthy (ev_phone event_close) then ev_phone event_close
              else connected_phone (whatsapp (newClientData acme ''connecting'')))"
      "qrCode v' = (if truthy (ev_qrCode event_close) then ev_qrCode event_close else qrCode pairing_view)"
      "errorMessage v' = (if truthy (ev_qrCode event_close) then None else errorMessage pairing_view)"
    and b: "clients (admin_onmessage event_close listing_admin) ! 0 =
        (clients listing_admin ! 0)\<lparr>c_status := ev_status event_close,
           c_connected_phone := ev_phone event_close\<rparr>"
    by blast
  from r have "outcome_displayed (landing_onmessage event_close pairing_view) =
     Some (Some (''close'', False, None), Some ''data:qr'', None)"
    by (simp add: outcome_displayed_def displayed_def event_close_def truthy_def pairing_view_def
        newClientData_def acme_def)
  moreover from b have "clients (admin_onmessage event_close listing_admin) ! 0 =
       (mapClient acme_rec)\<lparr>c_status := ''close'', c_connected_phone := None\<rparr>"
    by (simp add: listing_admin_def event_close_def)
  ultimately show ?thesis by simp
qed



section \<open>The steps of a fetch\<close>

text \<open>A fetch only adds to the effects performed so far.\<close>

lemma landing_trace_extends:
  "\<exists>rest. trace (fetchClientData_landing be uo fq v) = trace v @ rest"
proof (induction be uo fq v rule: fetchClientData_landing.induct)
  case (1 be unique_url fetchQr v)
  show ?case
  proof (cases unique_url)
    case None
    then show ?thesis
      by (subst fetchClientData_landing.simps) simp
  next
    case (Some u)
    show ?thesis
    proof (cases "u = []")
      case True
      with Some show ?thesis
        by (subst fetchClientData_landing.simps) simp
    next
      case u: False
      show ?thesis
      proof (cases "get_landing be (trace v) u")
        case (Inl e)
        with Some u show ?thesis
          by (subst fetchClientData_landing.simps) (simp add: landing_catch_def emit_def)
      next
        case L: (Inr c)
        show ?thesis
        proof (cases "get_status be (trace v @ [Net (GetLanding u)]) (l_id c)")
          case (Inl e)
          with Some u L show ?thesis
            by (subst fetchClientData_landing.simps) (simp add: landing_catch_def emit_def)
        next
          case S: (Inr st)
          show ?thesis
          proof (cases "st \<noteq> ''open'' \<and> fetchQr")
            case False
            with Some u L S show ?thesis
              by (subst fetchClientData_landing.simps) (auto simp add: emit_def)
          next
            case go: True
            show ?thesis
            proof (cases "get_qr be (trace v @ [Net (GetLanding u), Net (GetStatus (l_id c))]) (l_id c)")
              case (Inr d)
              with Some u L S go show ?thesis
                by (subst fetchClientData_landing.simps)
                  (simp add: emit_def apply_qrResponse_def)
            next
              case Q: (Inl e)
              show ?thesis
              proof (cases "instance_missing (qrErrorMsg e) \<and> retryCount v < maxRetries")
                case False
                with Some u L S go Q show ?thesis
                  by (subst fetchClientData_landing.simps) (auto simp add: emit_def)
              next
                case True
                let ?w = "(emit (Sleep 2000)
                            (emit (Net (GetQr (l_id c)))
                              (emit (Net (GetStatus (l_id c))) (emit (Net (GetLanding u)) v))))
                          \<lparr>clientData := Some (newClientData c st), qrCode := None,
                           errorMessage := Some (qrErrorMsg e),
                           retryCount := retryCount v + 1, loading := True\<rparr>"
                from "1.IH" [OF Some u L S _ Q] True go
                obtain rest where
                  "trace (fetchClientData_landing be unique_url fetchQr ?w) = trace ?w @ rest"
                  by blast
                with Some u L S go Q True show ?thesis
                  by (subst fetchClientData_landing.simps) (simp add: emit_def)
              qed
            qed
          qed
        qed
      qed
    qed
  qed
qed

lemma fetchQRCode_trace_extends:
  "\<exists>rest. trace (fetchQRCode be cd i v) = trace v @ rest"
proof (induction be cd i v rule: fetchQRCode.induct)
  case (1 be cd instance_id v)
  show ?case
    apply (subst fetchQRCode.simps)
    using 1 by (auto simp: emit_def split: sum.splits)
qed

lemma qr_page_trace_extends:
  "\<exists>rest. trace (fetchClientData be u v) = trace v @ rest"
proof (cases "get_landing be (trace v) u")
  case (Inl e)
  then show ?thesis by (simp add: fetchClientData_def qr_page_catch_def emit_def)
next
  case L: (Inr c)
  show ?thesis
  proof (cases "get_status be (trace v @ [Net (GetLanding u)]) (l_id c)")
    case (Inl e)
    with L show ?thesis by (simp add: fetchClientData_def qr_page_catch_def emit_def)
  next
    case S: (Inr st)
    let ?w = "(emit (Net (GetStatus (l_id c))) (emit (Net (GetLanding u)) v))
                       \<lparr>clientData := Some (qr_page_clientData c st), errorMessage := None,
                        refreshing := True, loading := True\<rparr>"
    from fetchQRCode_trace_extends [of be "clientData v" "l_id c" ?w]
    obtain rest where "trace (fetchQRCode be (clientData v) (l_id c) ?w) = trace ?w @ rest" ..
    with L S show ?thesis by (simp add: fetchClientData_def emit_def)
  qed
qed


text \<open>
  C5, as stated, fails. A failed fetch does change the view: when the QR request
  is rejected, the client record built from the landing and status answers has
  already been stored; when the landing request is rejected, a QR code on display
  is cleared. And the message is not always the one of the failure's kind: a 403 on
  the landing page and a 401 on the QR page get the generic message.
\<close>

theorem fetchState_failure_not_atomic:
  "clientData initial_view = None
   \<and> clientData (fetchClientData_landing
         (fixed_backend (Inr acme) (Inr ''connecting'') (Inl server_down) (Inr None) (Inr ()))
         (Some ''acme-law'') True initial_view) = Some (newClientData acme ''connecting'')
   \<and> qrCode pairing_view = Some ''data:qr''
   \<and> qrCode (fetchClientData_landing
         (fixed_backend (Inl server_down) (Inr ''connecting'') (Inr no_qr) (Inr None) (Inr ()))
         (Some ''acme-law'') True pairing_view) = None
   \<and> errorMessage (fetchClientData_landing
         (fixed_backend (Inl forbidden) (Inr ''connecting'') (Inr no_qr) (Inr None) (Inr ()))
         (Some ''acme-law'') True initial_view) =
       Some ''No se pudo conectar con el servidor. Por favor intenta nuevamente.''
   \<and> errorMessage (fetchClientData
         (fixed_backend (Inl unauthorized) (Inr ''connecting'') (Inr no_qr) (Inr None) (Inr ()))
         ''acme-law'' initial_view) = Some ''Error al verificar el estado.''"
  by (simp add: fetchClientData_landing.simps fetchClientData_def fixed_backend_def initial_view_def
      pairing_view_def instance_missing_def qrErrorMsg_def server_down_def forbidden_def
      unauthorized_def http_error_def or_default_def landing_catch_def qr_page_catch_def emit_def
      landing_failure_message_def qr_page_failure_message_def)

text \<open>The order of the requests, and the state after each way a fetch can end.\<close>

lemma fetchState_order:
  "(u \<noteq> [] \<and> get_landing be (trace v) u = Inl e \<longrightarrow>
      trace (fetchClientData_landing be (Some u) fq v) =
        trace v @ [Net (GetLanding u),
                   ToastError (or_default (err_message e) ''Error desconocido al conectar con el servidor.'')]
      \<and> clientData (fetchClientData_landing be (Some u) fq v) = clientData v
      \<and> qrCode (fetchClientData_landing be (Some u) fq v) = None
      \<and> errorMessage (fetchClientData_landing be (Some u) fq v) = Some (landing_failure_message e))
   \<and> (u \<noteq> [] \<and> get_landing be (trace v) u = Inr c
        \<and> get_status be (trace v @ [Net (GetLanding u)]) (l_id c) = Inl e \<longrightarrow>
      trace (fetchClientData_landing be (Some u) fq v) =
        trace v @ [Net (GetLanding u), Net (GetStatus (l_id c)),
                   ToastError (or_default (err_message e) ''Error desconocido al conectar con el servidor.'')]
      \<and> clientData (fetchClientData_landing be (Some u) fq v) = clientData v
      \<and> qrCode (fetchClientData_landing be (Some u) fq v) = None
      \<and> errorMessage (fetchClientData_landing be (Some u) fq v) = Some (landing_failure_message e))
   \<and> (u \<noteq> [] \<and> get_landing be (trace v) u = Inr c
        \<and> get_status be (trace v @ [Net (GetLanding u)]) (l_id c) = Inr ''open'' \<longrightarrow>
      trace (fetchClientData_landing be (Some u) fq v) =
        trace v @ [Net (GetLanding u), Net (GetStatus (l_id c))]
      \<and> clientData (fetchClientData_landing be (Some u) fq v) = Some (newClientData c ''open'')
      \<and> qrCode (fetchClientData_landing be (Some u) fq v) = None
      \<and> errorMessage (fetchClientData_landing be (Some u) fq v) = None)
   \<and> (u \<noteq> [] \<and> get_landing be (trace v) u = Inr c
        \<and> get_status be (trace v @ [Net (GetLanding u)]) (l_id c) = Inr st \<and> st \<noteq> ''open'' \<longrightarrow>
      (\<exists>rest. trace (fetchClientData_landing be (Some u) True v) =
         trace v @ Net (GetLanding u) # Net (GetStatus (l_id c)) # Net (GetQr (l_id c)) # rest))
   \<and> (get_landing be (trace v) u = Inl e \<longrightarrow>
      trace (fetchClientData be u v) =
        trace v @ [Net (GetLanding u),
                   ToastError (or_default (errorMessage v) ''Error desconocido al conectar con el servidor.'')]
      \<and> clientData (fetchClientData be u v) = clientData v
      \<and> qrCode (fetchClientData be u v) = None
      \<and> errorMessage (fetchClientData be u v) = Some (qr_page_failure_message e))
   \<and> (get_landing be (trace v) u = Inr c
        \<and> get_status be (trace v @ [Net (GetLanding u)]) (l_id c) = Inl e \<longrightarrow>
      trace (fetchClientData be u v) =
        trace v @ [Net (GetLanding u), Net (GetStatus (l_id c)),
                   ToastError (or_default (errorMessage v) ''Error desconocido al conectar con el servidor.'')]
      \<and> clientData (fetchClientData be u v) = clientData v
      \<and> qrCode (fetchClientData be u v) = None
      \<and> errorMessage (fetchClientData be u v) = Some (qr_page_failure_message e))
   \<and> (get_landing be (trace v) u = Inr c
        \<and> get_status be (trace v @ [Net (GetLanding u)]) (l_id c) = Inr ''open'' \<longrightarrow>
      trace (fetchClientData be u v) = trace v @ [Net (GetLanding u), Net (GetStatus (l_id c))]
      \<and> clientData (fetchClientData be u v) = Some (qr_page_clientData c ''open'')
      \<and> qrCode (fetchClientData be u v) = None
      \<and> errorMessage (fetchClientData be u v) = None)
   \<and> (get_landing be (trace v) u = Inr c
        \<and> get_status be (trace v @ [Net (GetLanding u)]) (l_id c) = Inr st \<and> st \<noteq> ''open''
        \<and> \<not> is_connected (clientData v) \<longrightarrow>
      (\<exists>rest. trace (fetchClientData be u v) =
         trace v @ Net (GetLanding u) # Net (GetStatus (l_id c)) # Net (GetQr (l_id c)) # rest))"
proof (intro conjI impI)
  assume a: "u \<noteq> [] \<and> get_landing be (trace v) u = Inl e"
  then have eq: "fetchClientData_landing be (Some u) fq v = landing_catch e (emit (Net (GetLanding u)) v)"
    by (subst fetchClientData_landing.simps) simp
  show "trace (fetchClientData_landing be (Some u) fq v) =
        trace v @ [Net (GetLanding u),
                   ToastError (or_default (err_message e) ''Error desconocido al conectar con el servidor.'')]"
    "clientData (fetchClientData_landing be (Some u) fq v) = clientData v"
    "qrCode (fetchClientData_landing be (Some u) fq v) = None"
    "errorMessage (fetchClientData_landing be (Some u) fq v) = Some (landing_failure_message e)"
    by (simp_all add: eq landing_catch_def emit_def)
next
  assume a: "u \<noteq> [] \<and> get_landing be (trace v) u = Inr c
        \<and> get_status be (trace v @ [Net (GetLanding u)]) (l_id c) = Inl e"
  then have eq: "fetchClientData_landing be (Some u) fq v =
      landing_catch e (emit (Net (GetStatus (l_id c))) (emit (Net (GetLanding u)) v))"
    by (subst fetchClientData_landing.simps) simp
  show "trace (fetchClientData_landing be (Some u) fq v) =
        trace v @ [Net (GetLanding u), Net (GetStatus (l_id c)),
                   ToastError (or_default (err_message e) ''Error desconocido al conectar con el servidor.'')]"
    "clientData (fetchClientData_landing be (Some u) fq v) = clientData v"
    "qrCode (fetchClientData_landing be (Some u) fq v) = None"
    "errorMessage (fetchClientData_landing be (Some u) fq v) = Some (landing_failure_message e)"
    by (simp_all add: eq landing_catch_def emit_def)
next
  assume a: "u \<noteq> [] \<and> get_landing be (trace v) u = Inr c
        \<and> get_status be (trace v @ [Net (GetLanding u)]) (l_id c) = Inr ''open''"
  then have eq: "fetchClientData_landing be (Some u) fq v =
      (emit (Net (GetStatus (l_id c))) (emit (Net (GetLanding u)) v))
         \<lparr>clientData := Some (newClientData c ''open''), qrCode := None,
          errorMessage := None, loading := False, refreshing := False\<rparr>"
    by (subst fetchClientData_landing.simps) simp
  show "trace (fetchClientData_landing be (Some u) fq v) =
        trace v @ [Net (GetLanding u), Net (GetStatus (l_id c))]"
    "clientData (fetchClientData_landing be (Some u) fq v) = Some (newClientData c ''open'')"
    "qrCode (fetchClientData_landing be (Some u) fq v) = None"
    "errorMessage (fetchClientData_landing be (Some u) fq v) = None"
    by (simp_all add: eq emit_def)
next
  assume a: "u \<noteq> [] \<and> get_landing be (trace v) u = Inr c
        \<and> get_status be (trace v @ [Net (GetLanding u)]) (l_id c) = Inr st \<and> st \<noteq> ''open''"
  then have u: "u \<noteq> []" and L: "get_landing be (trace v) u = Inr c"
    and S: "get_status be (trace v @ [Net (GetLanding u)]) (l_id c) = Inr st"
    and st: "st \<noteq> ''open''" by blast+
  show "\<exists>rest. trace (fetchClientData_landing be (Some u) True v) =
         trace v @ Net (GetLanding u) # Net (GetStatus (l_id c)) # Net (GetQr (l_id c)) # rest"
  proof (cases "get_qr be (trace v @ [Net (GetLanding u), Net (GetStatus (l_id c))]) (l_id c)")
    case (Inr d)
    with u L S st show ?thesis
      by (subst fetchClientData_landing.simps) (simp add: emit_def apply_qrResponse_def)
  next
    case Q: (Inl e)
    show ?thesis
    proof (cases "instance_missing (qrErrorMsg e) \<and> retryCount v < maxRetries")
      case False
      with landing_qr_giveup [OF u L S st Q] show ?thesis
        by (auto simp add: emit_def)
    next
      case True
      let ?w = "(emit (Sleep 2000)
           (emit (Net (GetQr (l_id c)))
             (emit (Net (GetStatus (l_id c))) (emit (Net (GetLanding u)) v))))
           \<lparr>clientData := Some (newClientData c st), qrCode := None,
            errorMessage := Some (qrErrorMsg e),
            retryCount := retryCount v + 1, loading := True\<rparr>"
      from landing_trace_extends [of be "Some u" True ?w]
      obtain rest where "trace (fetchClientData_landing be (Some u) True ?w) = trace ?w @ rest" ..
      with landing_qr_retry [OF u L S st Q] True show ?thesis
        by (simp add: emit_def)
    qed
  qed
next
  assume a: "get_landing be (trace v) u = Inl e"
  then show "trace (fetchClientData be u v) =
        trace v @ [Net (GetLanding u),
                   ToastError (or_default (errorMessage v) ''Error desconocido al conectar con el servidor.'')]"
    "clientData (fetchClientData be u v) = clientData v"
    "qrCode (fetchClientData be u v) = None"
    "errorMessage (fetchClientData be u v) = Some (qr_page_failure_message e)"
    by (simp_all add: fetchClientData_def qr_page_catch_def emit_def)
next
  assume a: "get_landing be (trace v) u = Inr c
        \<and> get_status be (trace v @ [Net (GetLanding u)]) (l_id c) = Inl e"
  then show "trace (fetchClientData be u v) =
        trace v @ [Net (GetLanding u), Net (GetStatus (l_id c)),
                   ToastError (or_default (errorMessage v) ''Error desconocido al conectar con el servidor.'')]"
    "clientData (fetchClientData be u v) = clientData v"
    "qrCode (fetchClientData be u v) = None"
    "errorMessage (fetchClientData be u v) = Some (qr_page_failure_message e)"
    by (simp_all add: fetchClientData_def qr_page_catch_def emit_def)
next
  assume a: "get_landing be (trace v) u = Inr c
        \<and> get_status be (trace v @ [Net (GetLanding u)]) (l_id c) = Inr ''open''"
  then show "trace (fetchClientData be u v) = trace v @ [Net (GetLanding u), Net (GetStatus (l_id c))]"
    "clientData (fetchClientData be u v) = Some (qr_page_clientData c ''open'')"
    "qrCode (fetchClientData be u v) = None"
    "errorMessage (fetchClientData be u v) = None"
    by (simp_all add: fetchClientData_def emit_def)
next
  assume a: "get_landing be (trace v) u = Inr c
        \<and> get_status be (trace v @ [Net (GetLanding u)]) (l_id c) = Inr st \<and> st \<noteq> ''open''
        \<and> \<not> is_connected (clientData v)"
  then have L: "get_landing be (trace v) u = Inr c"
    and S: "get_status be (trace v @ [Net (GetLanding u)]) (l_id c) = Inr st"
    and st: "st \<noteq> ''open''" and nc: "\<not> is_connected (clientData v)" by blast+
  let ?w = "(emit (Net (GetStatus (l_id c))) (emit (Net (GetLanding u)) v))
                       \<lparr>clientData := Some (qr_page_clientData c st), errorMessage := None,
                        refreshing := True, loading := True\<rparr>"
  from fetchQRCode_bounded [OF nc refl, of ?w be "l_id c"]
  obtain k rest where
    "trace (fetchQRCode be (clientData v) (l_id c) ?w) =
         trace ?w @ concat (replicate k [Net (GetQr (l_id c)), Sleep 2000]) @ Net (GetQr (l_id c)) # rest"
    by blast
  then have "\<exists>rest. trace (fetchQRCode be (clientData v) (l_id c) ?w) =
         trace ?w @ Net (GetQr (l_id c)) # rest"
    by (cases k) auto
  with L S st show "\<exists>rest. trace (fetchClientData be u v) =
         trace v @ Net (GetLanding u) # Net (GetStatus (l_id c)) # Net (GetQr (l_id c)) # rest"
    by (simp add: fetchClientData_def emit_def)
qed


text \<open>The message of a failed landing or status request, and the record a fetch stores.\<close>

lemma landing_failed_step:
  assumes "u \<noteq> []"
    and "get_landing be (trace v) u = Inl e
           \<or> (\<exists>c. get_landing be (trace v) u = Inr c
                 \<and> get_status be (trace v @ [Net (GetLanding u)]) (l_id c) = Inl e)"
  shows "errorMessage (fetchClientData_landing be (Some u) fq v) = Some (landing_failure_message e)"
  using assms
  by (subst fetchClientData_landing.simps) (auto simp: landing_catch_def)

lemma qr_page_failed_step:
  assumes "get_landing be (trace v) u = Inl e
           \<or> (\<exists>c. get_landing be (trace v) u = Inr c
                 \<and> get_status be (trace v @ [Net (GetLanding u)]) (l_id c) = Inl e)"
  shows "errorMessage (fetchClientData be u v) = Some (qr_page_failure_message e)"
  using assms
  by (auto simp: fetchClientData_def qr_page_catch_def)

lemma fetchState_messages:
  "(u \<noteq> []
        \<and> (get_landing be (trace v) u = Inl e
           \<or> (\<exists>c. get_landing be (trace v) u = Inr c
                 \<and> get_status be (trace v @ [Net (GetLanding u)]) (l_id c) = Inl e))
        \<and> err_status e = Some 404 \<longrightarrow>
      errorMessage (fetchClientData_landing be (Some u) fq v) =
        Some ''Cliente no encontrado. Verifica que el enlace sea correcto o contacta a soporte.'')
   \<and> (u \<noteq> []
        \<and> (get_landing be (trace v) u = Inl e
           \<or> (\<exists>c. get_landing be (trace v) u = Inr c
                 \<and> get_status be (trace v @ [Net (GetLanding u)]) (l_id c) = Inl e))
        \<and> err_status e = Some 401 \<longrightarrow>
      errorMessage (fetchClientData_landing be (Some u) fq v) =
        Some ''Acceso no autorizado. Contacta al administrador.'')
   \<and> (u \<noteq> []
        \<and> (get_landing be (trace v) u = Inl e
           \<or> (\<exists>c. get_landing be (trace v) u = Inr c
                 \<and> get_status be (trace v @ [Net (GetLanding u)]) (l_id c) = Inl e))
        \<and> err_status e \<notin> {Some 404, Some 401, Some 403} \<longrightarrow>
      errorMessage (fetchClientData_landing be (Some u) fq v) =
        Some ''No se pudo conectar con el servidor. Por favor intenta nuevamente.'')
   \<and> ((get_landing be (trace v) u = Inl e
           \<or> (\<exists>c. get_landing be (trace v) u = Inr c
                 \<and> get_status be (trace v @ [Net (GetLanding u)]) (l_id c) = Inl e))
        \<and> err_status e = Some 404 \<longrightarrow>
      errorMessage (fetchClientData be u v) =
        Some ''Cliente no encontrado. Verifica que el enlace sea correcto o contacta al administrador (contacto@tiks.cl).'')
   \<and> ((get_landing be (trace v) u = Inl e
           \<or> (\<exists>c. get_landing be (trace v) u = Inr c
                 \<and> get_status be (trace v @ [Net (GetLanding u)]) (l_id c) = Inl e))
        \<and> err_status e = Some 403 \<longrightarrow>
      errorMessage (fetchClientData be u v) =
        Some ''Error de autenticacion con el servidor de WhatsApp. Contacta al administrador.'')
   \<and> ((get_landing be (trace v) u = Inl e
           \<or> (\<exists>c. get_landing be (trace v) u = Inr c
                 \<and> get_status be (trace v @ [Net (GetLanding u)]) (l_id c) = Inl e))
        \<and> err_status e \<notin> {Some 404, Some 401, Some 403} \<longrightarrow>
      errorMessage (fetchClientData be u v) =
        Some ''Error al verificar el estado.'')
   \<and> (get_landing be (trace v) u = Inr c
        \<and> get_status be (trace v @ [Net (GetLanding u)]) (l_id c) = Inr st \<longrightarrow>
      clientData (fetchClientData be u v) = Some (qr_page_clientData c st))
   \<and> (u \<noteq> [] \<and> get_landing be (trace v) u = Inr c
        \<and> get_status be (trace v @ [Net (GetLanding u)]) (l_id c) = Inr st \<and> st \<noteq> ''open''
        \<and> get_qr be (trace v @ [Net (GetLanding u), Net (GetStatus (l_id c))]) (l_id c) = Inl e
        \<and> (\<not> instance_missing (qrErrorMsg e) \<or> \<not> retryCount v < 3) \<longrightarrow>
      clientData (fetchClientData_landing be (Some u) True v) = Some (newClientData c st)
      \<and> qrCode (fetchClientData_landing be (Some u) True v) = None
      \<and> errorMessage (fetchClientData_landing be (Some u) True v) = Some (qrErrorMsg e))"
proof (intro conjI impI)
  assume h: "u \<noteq> []
        \<and> (get_landing be (trace v) u = Inl e
           \<or> (\<exists>c. get_landing be (trace v) u = Inr c
                 \<and> get_status be (trace v @ [Net (GetLanding u)]) (l_id c) = Inl e))
        \<and> err_status e = Some 404"
  then show "errorMessage (fetchClientData_landing be (Some u) fq v) =
        Some ''Cliente no encontrado. Verifica que el enlace sea correcto o contacta a soporte.''"
    using landing_failed_step [of u be v e fq] by (simp add: landing_failure_message_def)
next
  assume h: "u \<noteq> []
        \<and> (get_landing be (trace v) u = Inl e
           \<or> (\<exists>c. get_landing be (trace v) u = Inr c
                 \<and> get_status be (trace v @ [Net (GetLanding u)]) (l_id c) = Inl e))
        \<and> err_status e = Some 401"
  then show "errorMessage (fetchClientData_landing be (Some u) fq v) =
        Some ''Acceso no autorizado. Contacta al administrador.''"
    using landing_failed_step [of u be v e fq] by (simp add: landing_failure_message_def)
next
  assume h: "u \<noteq> []
        \<and> (get_landing be (trace v) u = Inl e
           \<or> (\<exists>c. get_landing be (trace v) u = Inr c
                 \<and> get_status be (trace v @ [Net (GetLanding u)]) (l_id c) = Inl e))
        \<and> err_status e \<notin> {Some 404, Some 401, Some 403}"
  then show "errorMessage (fetchClientData_landing be (Some u) fq v) =
        Some ''No se pudo conectar con el servidor. Por favor intenta nuevamente.''"
    using landing_failed_step [of u be v e fq] by (simp add: landing_failure_message_def)
next
  assume h: "(get_landing be (trace v) u = Inl e
           \<or> (\<exists>c. get_landing be (trace v) u = Inr c
                 \<and> get_status be (trace v @ [Net (GetLanding u)]) (l_id c) = Inl e))
        \<and> err_status e = Some 404"
  then show "errorMessage (fetchClientData be u v) =
        Some ''Cliente no encontrado. Verifica que el enlace sea correcto o contacta al administrador (contacto@tiks.cl).''"
    using qr_page_failed_step [of be v u e] by (simp add: qr_page_failure_message_def)
next
  assume h: "(get_landing be (trace v) u = Inl e
           \<or> (\<exists>c. get_landing be (trace v) u = Inr c
                 \<and> get_status be (trace v @ [Net (GetLanding u)]) (l_id c) = Inl e))
        \<and> err_status e = Some 403"
  then show "errorMessage (fetchClientData be u v) =
        Some ''Error de autenticacion con el servidor de WhatsApp. Contacta al administrador.''"
    using qr_page_failed_step [of be v u e] by (simp add: qr_page_failure_message_def)
next
  assume h: "(get_landing be (trace v) u = Inl e
           \<or> (\<exists>c. get_landing be (trace v) u = Inr c
                 \<and> get_status be (trace v @ [Net (GetLanding u)]) (l_id c) = Inl e))
        \<and> err_status e \<notin> {Some 404, Some 401, Some 403}"
  then show "errorMessage (fetchClientData be u v) = Some ''Error al verificar el estado.''"
    using qr_page_failed_step [of be v u e] by (simp add: qr_page_failure_message_def)
next
  assume "get_landing be (trace v) u = Inr c
        \<and> get_status be (trace v @ [Net (GetLanding u)]) (l_id c) = Inr st"
  then show "clientData (fetchClientData be u v) = Some (qr_page_clientData c st)"
    by (simp add: fetchClientData_def clientData_fetchQRCode)
next
  assume h: "u \<noteq> [] \<and> get_landing be (trace v) u = Inr c
        \<and> get_status be (trace v @ [Net (GetLanding u)]) (l_id c) = Inr st \<and> st \<noteq> ''open''
        \<and> get_qr be (trace v @ [Net (GetLanding u), Net (GetStatus (l_id c))]) (l_id c) = Inl e
        \<and> (\<not> instance_missing (qrErrorMsg e) \<or> \<not> retryCount v < 3)"
  then have u: "u \<noteq> []" and L: "get_landing be (trace v) u = Inr c"
    and S: "get_status be (trace v @ [Net (GetLanding u)]) (l_id c) = Inr st"
    and st: "st \<noteq> ''open''"
    and Q: "get_qr be (trace v @ [Net (GetLanding u), Net (GetStatus (l_id c))]) (l_id c) = Inl e"
    and g: "\<not> instance_missing (qrErrorMsg e) \<or> \<not> retryCount v < maxRetries"
    by (simp_all add: maxRetries_def)
  from landing_qr_giveup [OF u L S st Q g]
  show "clientData (fetchClientData_landing be (Some u) True v) = Some (newClientData c st)"
    "qrCode (fetchClientData_landing be (Some u) True v) = None"
    "errorMessage (fetchClientData_landing be (Some u) True v) = Some (qrErrorMsg e)"
    by simp_all
qed

text \<open>
  C5, amended. A fetch asks for the landing record, then for the status, and then
  for a QR payload only when the status is not \<open>open\<close> (\<open>QRAssistantPage\<close> asks
  for it unless the client data it closed over says connected). When the landing or
  the status request is rejected, no further request is made, \<open>clientData\<close> is
  left as it was, the QR payload is cleared and the error message is the one of the
  failure's kind: the not-found message for 404, the unauthorized message for 401
  on \<open>ClientLanding\<close> and for 403 on \<open>QRAssistantPage\<close>, the generic message
  for a failure with no status or with a status other than 404, 401 and 403. With
  status \<open>open\<close> the new record is stored, the QR payload cleared and no QR
  request made. The new record is stored before the QR request: on
  \<open>QRAssistantPage\<close> it is the stored record whatever becomes of the QR request,
  and on \<open>ClientLanding\<close> it stays stored when the QR request is rejected and not
  retried.
\<close>

theorem fetchState_steps:
  "((u \<noteq> [] \<and> get_landing be (trace v) u = Inl e \<longrightarrow>
      trace (fetchClientData_landing be (Some u) fq v) =
        trace v @ [Net (GetLanding u),
                   ToastError (or_default (err_message e) ''Error desconocido al conectar con el servidor.'')]
      \<and> clientData (fetchClientData_landing be (Some u) fq v) = clientData v
      \<and> qrCode (fetchClientData_landing be (Some u) fq v) = None
      \<and> errorMessage (fetchClientData_landing be (Some u) fq v) = Some (landing_failure_message e))
   \<and> (u \<noteq> [] \<and> get_landing be (trace v) u = Inr c
        \<and> get_status be (trace v @ [Net (GetLanding u)]) (l_id c) = Inl e \<longrightarrow>
      trace (fetchClientData_landing be (Some u) fq v) =
        trace v @ [Net (GetLanding u), Net (GetStatus (l_id c)),
                   ToastError (or_default (err_message e) ''Error desconocido al conectar con el servidor.'')]
      \<and> clientData (fetchClientData_landing be (Some u) fq v) = clientData v
      \<and> qrCode (fetchClientData_landing be (Some u) fq v) = None
      \<and> errorMessage (fetchClientData_landing be (Some u) fq v) = Some (landing_failure_message e))
   \<and> (u \<noteq> [] \<and> get_landing be (trace v) u = Inr c
        \<and> get_status be (trace v @ [Net (GetLanding u)]) (l_id c) = Inr ''open'' \<longrightarrow>
      trace (fetchClientData_landing be (Some u) fq v) =
        trace v @ [Net (GetLanding u), Net (GetStatus (l_id c))]
      \<and> clientData (fetchClientData_landing be (Some u) fq v) = Some (newClientData c ''open'')
      \<and> qrCode (fetchClientData_landing be (Some u) fq v) = None
      \<and> errorMessage (fetchClientData_landing be (Some u) fq v) = None)
   \<and> (u \<noteq> [] \<and> get_landing be (trace v) u = Inr c
        \<and> get_status be (trace v @ [Net (GetLanding u)]) (l_id c) = Inr st \<and> st \<noteq> ''open'' \<longrightarrow>
      (\<exists>rest. trace (fetchClientData_landing be (Some u) True v) =
         trace v @ Net (GetLanding u) # Net (GetStatus (l_id c)) # Net (GetQr (l_id c)) # rest))
   \<and> (get_landing be (trace v) u = Inl e \<longrightarrow>
      trace (fetchClientData be u v) =
        trace v @ [Net (GetLanding u),
                   ToastError (or_default (errorMessage v) ''Error desconocido al conectar con el servidor.'')]
      \<and> clientData (fetchClientData be u v) = clientData v
      \<and> qrCode (fetchClientData be u v) = None
      \<and> errorMessage (fetchClientData be u v) = Some (qr_page_failure_message e))
   \<and> (get_landing be (trace v) u = Inr c
        \<and> get_status be (trace v @ [Net (GetLanding u)]) (l_id c) = Inl e \<longrightarrow>
      trace (fetchClientData be u v) =
        trace v @ [Net (GetLanding u), Net (GetStatus (l_id c)),
                   ToastError (or_default (errorMessage v) ''Error desconocido al conectar con el servidor.'')]
      \<and> clientData (fetchClientData be u v) = clientData v
      \<and> qrCode (fetchClientData be u v) = None
      \<and> errorMessage (fetchClientData be u v) = Some (qr_page_failure_message e))
   \<and> (get_landing be (trace v) u = Inr c
        \<and> get_status be (trace v @ [Net (GetLanding u)]) (l_id c) = Inr ''open'' \<longrightarrow>
      trace (fetchClientData be u v) = trace v @ [Net (GetLanding u), Net (GetStatus (l_id c))]
      \<and> clientData (fetchClientData be u v) = Some (qr_page_clientData c ''open'')
      \<and> qrCode (fetchClientData be u v) = None
      \<and> errorMessage (fetchClientData be u v) = None)
   \<and> (get_landing be (trace v) u = Inr c
        \<and> get_status be (trace v @ [Net (GetLanding u)]) (l_id c) = Inr st \<and> st \<noteq> ''open''
        \<and> \<not> is_connected (clientData v) \<longrightarrow>
      (\<exists>rest. trace (fetchClientData be u v) =
         trace v @ Net (GetLanding u) # Net (GetStatus (l_id c)) # Net (GetQr (l_id c)) # rest)))
   \<and> ((u \<noteq> []
        \<and> (get_landing be (trace v) u = Inl e
           \<or> (\<exists>c. get_landing be (trace v) u = Inr c
                 \<and> get_status be (trace v @ [Net (GetLanding u)]) (l_id c) = Inl e))
        \<and> err_status e = Some 404 \<longrightarrow>
      errorMessage (fetchClientData_landing be (Some u) fq v) =
        Some ''Cliente no encontrado. Verifica que el enlace sea correcto o contacta a soporte.'')
   \<and> (u \<noteq> []
        \<and> (get_landing be (trace v) u = Inl e
           \<or> (\<exists>c. get_landing be (trace v) u = Inr c
                 \<and> get_status be (trace v @ [Net (GetLanding u)]) (l_id c) = Inl e))
        \<and> err_status e = Some 401 \<longrightarrow>
      errorMessage (fetchClientData_landing be (Some u) fq v) =
        Some ''Acceso no autorizado. Contacta al administrador.'')
   \<and> (u \<noteq> []
        \<and> (get_landing be (trace v) u = Inl e
           \<or> (\<exists>c. get_landing be (trace v) u = Inr c
                 \<and> get_status be (trace v @ [Net (GetLanding u)]) (l_id c) = Inl e))
        \<and> err_status e \<notin> {Some 404, Some 401, Some 403} \<longrightarrow>
      errorMessage (fetchClientData_landing be (Some u) fq v) =
        Some ''No se pudo conectar con el servidor. Por favor intenta nuevamente.'')
   \<and> ((get_landing be (trace v) u = Inl e
           \<or> (\<exists>c. get_landing be (trace v) u = Inr c
                 \<and> get_status be (trace v @ [Net (GetLanding u)]) (l_id c) = Inl e))
        \<and> err_status e = Some 404 \<longrightarrow>
      errorMessage (fetchClientData be u v) =
        Some ''Cliente no encontrado. Verifica que el enlace sea correcto o contacta al administrador (contacto@tiks.cl).'')
   \<and> ((get_landing be (trace v) u = Inl e
           \<or> (\<exists>c. get_landing be (trace v) u = Inr c
                 \<and> get_status be (trace v @ [Net (GetLanding u)]) (l_id c) = Inl e))
        \<and> err_status e = Some 403 \<longrightarrow>
      errorMessage (fetchClientData be u v) =
        Some ''Error de autenticacion con el servidor de WhatsApp. Contacta al administrador.'')
   \<and> ((get_landing be (trace v) u = Inl e
           \<or> (\<exists>c. get_landing be (trace v) u = Inr c
                 \<and> get_status be (trace v @ [Net (GetLanding u)]) (l_id c) = Inl e))
        \<and> err_status e \<notin> {Some 404, Some 401, Some 403} \<longrightarrow>
      errorMessage (fetchClientData be u v) =
        Some ''Error al verificar el estado.'')
   \<and> (get_landing be (trace v) u = Inr c
        \<and> get_status be (trace v @ [Net (GetLanding u)]) (l_id c) = Inr st \<longrightarrow>
      clientData (fetchClientData be u v) = Some (qr_page_clientData c st))
   \<and> (u \<noteq> [] \<and> get_landing be (trace v) u = Inr c
        \<and> get_status be (trace v @ [Net (GetLanding u)]) (l_id c) = Inr st \<and> st \<noteq> ''open''
        \<and> get_qr be (trace v @ [Net (GetLanding u), Net (GetStatus (l_id c))]) (l_id c) = Inl e
        \<and> (\<not> instance_missing (qrErrorMsg e) \<or> \<not> retryCount v < 3) \<longrightarrow>
      clientData (fetchClientData_landing be (Some u) True v) = Some (newClientData c st)
      \<and> qrCode (fetchClientData_landing be (Some u) True v) = None
      \<and> errorMessage (fetchClientData_landing be (Some u) True v) = Some (qrErrorMsg e)))"
  by (rule conjI [OF fetchState_order fetchState_messages])

theorem fetchState_steps_witness:
  "errorMessage (fetchClientData_landing
       (fixed_backend (Inl instance_gone) (Inr ''connecting'') (Inr no_qr) (Inr None) (Inr ()))
       (Some ''acme-law'') True pairing_view) =
     Some ''Cliente no encontrado. Verifica que el enlace sea correcto o contacta a soporte.''
   \<and> trace (fetchClientData_landing
       (fixed_backend (Inl instance_gone) (Inr ''connecting'') (Inr no_qr) (Inr None) (Inr ()))
       (Some ''acme-law'') True pairing_view) =
     [Net (GetLanding ''acme-law''), ToastError ''Error desconocido al conectar con el servidor.'']
   \<and> clientData (fetchClientData_landing
       (fixed_backend (Inl instance_gone) (Inr ''connecting'') (Inr no_qr) (Inr None) (Inr ()))
       (Some ''acme-law'') True pairing_view) =
     clientData pairing_view
   \<and> errorMessage (fetchClientData_landing
       (fixed_backend (Inr acme) (Inl unauthorized) (Inr no_qr) (Inr None) (Inr ()))
       (Some ''acme-law'') True initial_view) =
     Some ''Acceso no autorizado. Contacta al administrador.''
   \<and> errorMessage (fetchClientData_landing
       (fixed_backend (Inl server_down) (Inr ''connecting'') (Inr no_qr) (Inr None) (Inr ()))
       (Some ''acme-law'') True initial_view) =
     Some ''No se pudo conectar con el servidor. Por favor intenta nuevamente.''
   \<and> errorMessage (fetchClientData
       (fixed_backend (Inl instance_gone) (Inr ''connecting'') (Inr no_qr) (Inr None) (Inr ()))
       ''acme-law'' initial_view) =
     Some ''Cliente no encontrado. Verifica que el enlace sea correcto o contacta al administrador (contacto@tiks.cl).''
   \<and> errorMessage (fetchClientData
       (fixed_backend (Inl forbidden) (Inr ''connecting'') (Inr no_qr) (Inr None) (Inr ()))
       ''acme-law'' initial_view) =
     Some ''Error de autenticacion con el servidor de WhatsApp. Contacta al administrador.''
   \<and> errorMessage (fetchClientData
       (fixed_backend (Inr acme) (Inl server_down) (Inr no_qr) (Inr None) (Inr ()))
       ''acme-law'' initial_view) =
     Some ''Error al verificar el estado.''
   \<and> trace (fetchClientData
       (fixed_backend (Inr acme) (Inl server_down) (Inr no_qr) (Inr None) (Inr ()))
       ''acme-law'' initial_view) =
     [Net (GetLanding ''acme-law''), Net (GetStatus ''c1''),
      ToastError ''Error desconocido al conectar con el servidor.'']
   \<and> trace (fetchClientData_landing
       (fixed_backend (Inr acme) (Inr ''open'') (Inr no_qr) (Inr None) (Inr ()))
       (Some ''acme-law'') True initial_view) =
     [Net (GetLanding ''acme-law''), Net (GetStatus ''c1'')]
   \<and> take 3 (trace (fetchClientData
       (fixed_backend (Inr acme) (Inr ''connecting'') (Inr no_qr) (Inr None) (Inr ()))
       ''acme-law'' initial_view)) =
     [Net (GetLanding ''acme-law''), Net (GetStatus ''c1''), Net (GetQr ''c1'')]
   \<and> clientData (fetchClientData
       (fixed_backend (Inr acme) (Inr ''connecting'') (Inl server_down) (Inr None) (Inr ()))
       ''acme-law'' initial_view) =
     Some (qr_page_clientData acme ''connecting'')
   \<and> clientData (fetchClientData_landing
       (fixed_backend (Inr acme) (Inr ''connecting'') (Inl server_down) (Inr None) (Inr ()))
       (Some ''acme-law'') True initial_view) =
     Some (newClientData acme ''connecting'')"
proof -
  have c1: "errorMessage (fetchClientData_landing
       (fixed_backend (Inl instance_gone) (Inr ''connecting'') (Inr no_qr) (Inr None) (Inr ()))
       (Some ''acme-law'') True pairing_view) =
     Some ''Cliente no encontrado. Verifica que el enlace sea correcto o contacta a soporte.''"
    using fetchState_steps [where u="''acme-law''" and be="fixed_backend (Inl instance_gone) (Inr ''connecting'') (Inr no_qr) (Inr None) (Inr ())" and v=pairing_view and e=instance_gone and fq=True and c=acme and st="''connecting''", THEN conjunct2, THEN conjunct1]
    by (auto simp add: fixed_backend_def initial_view_def pairing_view_def acme_def instance_gone_def unauthorized_def forbidden_def server_down_def http_error_def or_default_def is_connected_def instance_missing_def qrErrorMsg_def)
  have c2: "trace (fetchClientData_landing
       (fixed_backend (Inl instance_gone) (Inr ''connecting'') (Inr no_qr) (Inr None) (Inr ()))
       (Some ''acme-law'') True pairing_view) =
     [Net (GetLanding ''acme-law''), ToastError ''Error desconocido al conectar con el servidor.'']
   \<and> clientData (fetchClientData_landing
       (fixed_backend (Inl instance_gone) (Inr ''connecting'') (Inr no_qr) (Inr None) (Inr ()))
       (Some ''acme-law'') True pairing_view) =
     clientData pairing_view"
    using fetchState_steps [where u="''acme-law''" and be="fixed_backend (Inl instance_gone) (Inr ''connecting'') (Inr no_qr) (Inr None) (Inr ())" and v=pairing_view and e=instance_gone and fq=True and c=acme and st="''connecting''", THEN conjunct1, THEN conjunct1]
    by (auto simp add: fixed_backend_def initial_view_def pairing_view_def acme_def instance_gone_def unauthorized_def forbidden_def server_down_def http_error_def or_default_def is_connected_def instance_missing_def qrErrorMsg_def)
  have c3: "errorMessage (fetchClientData_landing
       (fixed_backend (Inr acme) (Inl unauthorized) (Inr no_qr) (Inr None) (Inr ()))
       (Some ''acme-law'') True initial_view) =
     Some ''Acceso no autorizado. Contacta al administrador.''"
    using fetchState_steps [where u="''acme-law''" and be="fixed_backend (Inr acme) (Inl unauthorized) (Inr no_qr) (Inr None) (Inr ())" and v=initial_view and e=unauthorized and fq=True and c=acme and st="''connecting''", THEN conjunct2, THEN conjunct2, THEN conjunct1]
    by (auto simp add: fixed_backend_def initial_view_def pairing_view_def acme_def instance_gone_def unauthorized_def forbidden_def server_down_def http_error_def or_default_def is_connected_def instance_missing_def qrErrorMsg_def)
  have c4: "errorMessage (fetchClientData_landing
       (fixed_backend (Inl server_down) (Inr ''connecting'') (Inr no_qr) (Inr None) (Inr ()))
       (Some ''acme-law'') True initial_view) =
     Some ''No se pudo conectar con el servidor. Por favor intenta nuevamente.''"
    using fetchState_steps [where u="''acme-law''" and be="fixed_backend (Inl server_down) (Inr ''connecting'') (Inr no_qr) (Inr None) (Inr ())" and v=initial_view and e=server_down and fq=True and c=acme and st="''connecting''", THEN conjunct2, THEN conjunct2, THEN conjunct2, THEN conjunct1]
    by (auto simp add: fixed_backend_def initial_view_def pairing_view_def acme_def instance_gone_def unauthorized_def forbidden_def server_down_def http_error_def or_default_def is_connected_def instance_missing_def qrErrorMsg_def)
  have c5: "errorMessage (fetchClientData
       (fixed_backend (Inl instance_gone) (Inr ''connecting'') (Inr no_qr) (Inr None) (Inr ()))
       ''acme-law'' initial_view) =
     Some ''Cliente no encontrado. Verifica que el enlace sea correcto o contacta al administrador (contacto@tiks.cl).''"
    using fetchState_steps [where u="''acme-law''" and be="fixed_backend (Inl instance_gone) (Inr ''connecting'') (Inr no_qr) (Inr None) (Inr ())" and v=initial_view and e=instance_gone and fq=True and c=acme and st="''connecting''", THEN conjunct2, THEN conjunct2, THEN conjunct2, THEN conjunct2, THEN conjunct1]
    by (auto simp add: fixed_backend_def initial_view_def pairing_view_def acme_def instance_gone_def unauthorized_def forbidden_def server_down_def http_error_def or_default_def is_connected_def instance_missing_def qrErrorMsg_def)
  have c6: "errorMessage (fetchClientData
       (fixed_backend (Inl forbidden) (Inr ''connecting'') (Inr no_qr) (Inr None) (Inr ()))
       ''acme-law'' initial_view) =
     Some ''Error de autenticacion con el servidor de WhatsApp. Contacta al administrador.''"
    using fetchState_steps [where u="''acme-law''" and be="fixed_backend (Inl forbidden) (Inr ''connecting'') (Inr no_qr) (Inr None) (Inr ())" and v=initial_view and e=forbidden and fq=True and c=acme and st="''connecting''", THEN conjunct2, THEN conjunct2, THEN conjunct2, THEN conjunct2, THEN conjunct2, THEN conjunct1]
    by (auto simp add: fixed_backend_def initial_view_def pairing_view_def acme_def instance_gone_def unauthorized_def forbidden_def server_down_def http_error_def or_default_def is_connected_def instance_missing_def qrErrorMsg_def)
  have c7: "errorMessage (fetchClientData
       (fixed_backend (Inr acme) (Inl server_down) (Inr no_qr) (Inr None) (Inr ()))
       ''acme-law'' initial_view) =
     Some ''Error al verificar el estado.''"
    using fetchState_steps [where u="''acme-law''" and be="fixed_backend (Inr acme) (Inl server_down) (Inr no_qr) (Inr None) (Inr ())" and v=initial_view and e=server_down and fq=True and c=acme and st="''connecting''", THEN conjunct2, THEN conjunct2, THEN conjunct2, THEN conjunct2, THEN conjunct2, THEN conjunct2, THEN conjunct1]
    by (auto simp add: fixed_backend_def initial_view_def pairing_view_def acme_def instance_gone_def unauthorized_def forbidden_def server_down_def http_error_def or_default_def is_connected_def instance_missing_def qrErrorMsg_def)
  have c8: "trace (fetchClientData
       (fixed_backend (Inr acme) (Inl server_down) (Inr no_qr) (Inr None) (Inr ()))
       ''acme-law'' initial_view) =
     [Net (GetLanding ''acme-law''), Net (GetStatus ''c1''),
      ToastError ''Error desconocido al conectar con el servidor.'']"
    using fetchState_steps [where u="''acme-law''" and be="fixed_backend (Inr acme) (Inl server_down) (Inr no_qr) (Inr None) (Inr ())" and v=initial_view and e=server_down and fq=True and c=acme and st="''connecting''", THEN conjunct1, THEN conjunct2, THEN conjunct2, THEN conjunct2, THEN conjunct2, THEN conjunct2, THEN conjunct1]
    by (auto simp add: fixed_backend_def initial_view_def pairing_view_def acme_def instance_gone_def unauthorized_def forbidden_def server_down_def http_error_def or_default_def is_connected_def instance_missing_def qrErrorMsg_def)
  have c9: "trace (fetchClientData_landing
       (fixed_backend (Inr acme) (Inr ''open'') (Inr no_qr) (Inr None) (Inr ()))
       (Some ''acme-law'') True initial_view) =
     [Net (GetLanding ''acme-law''), Net (GetStatus ''c1'')]"
    using fetchState_steps [where u="''acme-law''" and be="fixed_backend (Inr acme) (Inr ''open'') (Inr no_qr) (Inr None) (Inr ())" and v=initial_view and e=server_down and fq=True and c=acme and st="''open''", THEN conjunct1, THEN conjunct2, THEN conjunct2, THEN conjunct1]
    by (auto simp add: fixed_backend_def initial_view_def pairing_view_def acme_def instance_gone_def unauthorized_def forbidden_def server_down_def http_error_def or_default_def is_connected_def instance_missing_def qrErrorMsg_def)
  have c10: "take 3 (trace (fetchClientData
       (fixed_backend (Inr acme) (Inr ''connecting'') (Inr no_qr) (Inr None) (Inr ()))
       ''acme-law'' initial_view)) =
     [Net (GetLanding ''acme-law''), Net (GetStatus ''c1''), Net (GetQr ''c1'')]"
    using fetchState_steps [where u="''acme-law''" and be="fixed_backend (Inr acme) (Inr ''connecting'') (Inr no_qr) (Inr None) (Inr ())" and v=initial_view and e=server_down and fq=True and c=acme and st="''connecting''", THEN conjunct1, THEN conjunct2, THEN conjunct2, THEN conjunct2, THEN conjunct2, THEN conjunct2, THEN conjunct2, THEN conjunct2]
    by (auto simp add: fixed_backend_def initial_view_def pairing_view_def acme_def instance_gone_def unauthorized_def forbidden_def server_down_def http_error_def or_default_def is_connected_def instance_missing_def qrErrorMsg_def)
  have c11: "clientData (fetchClientData
       (fixed_backend (Inr acme) (Inr ''connecting'') (Inl server_down) (Inr None) (Inr ()))
       ''acme-law'' initial_view) =
     Some (qr_page_clientData acme ''connecting'')"
    using fetchState_steps [where u="''acme-law''" and be="fixed_backend (Inr acme) (Inr ''connecting'') (Inl server_down) (Inr None) (Inr ())" and v=initial_view and e=server_down and fq=True and c=acme and st="''connecting''", THEN conjunct2, THEN conjunct2, THEN conjunct2, THEN conjunct2, THEN conjunct2, THEN conjunct2, THEN conjunct2, THEN conjunct1]
    by (auto simp add: fixed_backend_def initial_view_def pairing_view_def acme_def instance_gone_def unauthorized_def forbidden_def server_down_def http_error_def or_default_def is_connected_def instance_missing_def qrErrorMsg_def)
  have c12: "clientData (fetchClientData_landing
       (fixed_backend (Inr acme) (Inr ''connecting'') (Inl server_down) (Inr None) (Inr ()))
       (Some ''acme-law'') True initial_view) =
     Some (newClientData acme ''connecting'')"
    using fetchState_steps [where u="''acme-law''" and be="fixed_backend (Inr acme) (Inr ''connecting'') (Inl server_down) (Inr None) (Inr ())" and v=initial_view and e=server_down and fq=True and c=acme and st="''connecting''", THEN conjunct2, THEN conjunct2, THEN conjunct2, THEN conjunct2, THEN conjunct2, THEN conjunct2, THEN conjunct2, THEN conjunct2]
    by (auto simp add: fixed_backend_def initial_view_def pairing_view_def acme_def instance_gone_def unauthorized_def forbidden_def server_down_def http_error_def or_default_def is_connected_def instance_missing_def qrErrorMsg_def)
  from c1 c2 c3 c4 c5 c6 c7 c8 c9 c10 c11 c12 show ?thesis
    by (elim conjE) (intro conjI)
qed

section \<open>Requests of the admin panel\<close>

text \<open>
  \<open>fetchWithRetry\<close> sends its request at least once and at most three times, with
  1000 ms between two attempts, and always returns or throws.
\<close>

lemma fetchWithRetry_from_effects:
  "n = retries - i \<Longrightarrow> i < retries \<Longrightarrow> fetchWithRetry_from call req retries delay i t = (r, t') \<Longrightarrow>
   \<exists>k. k < n \<and> t' = t @ concat (replicate k [Net req, Sleep delay]) @ [Net req] \<and> r \<noteq> None"
proof (induction n arbitrary: i t)
  case 0
  then show ?case by simp
next
  case (Suc n)
  show ?case
  proof (cases "call t")
    case (Inr response)
    with Suc.prems show ?thesis
      by (subst (asm) fetchWithRetry_from.simps) (auto intro!: exI [of _ 0])
  next
    case (Inl e)
    show ?thesis
    proof (cases "i < retries - 1 \<and> err_code e = Some ''ERR_NETWORK''")
      case False
      with Inl Suc.prems show ?thesis
        by (subst (asm) fetchWithRetry_from.simps) (auto intro!: exI [of _ 0])
    next
      case True
      with Inl Suc.prems have rec:
        "fetchWithRetry_from call req retries delay (i + 1) (t @ [Net req, Sleep delay]) = (r, t')"
        by (subst (asm) fetchWithRetry_from.simps) simp
      from Suc.prems True have "n = retries - (i + 1)" "i + 1 < retries" by auto
      from Suc.IH [OF this rec] obtain k where "k < n"
        "t' = (t @ [Net req, Sleep delay]) @ concat (replicate k [Net req, Sleep delay]) @ [Net req]"
        "r \<noteq> None" by blast
      then show ?thesis
        by (intro exI [of _ "Suc k"]) simp
    qed
  qed
qed

lemma fetchWithRetry_effects:
  assumes "fetchWithRetry call req t = (r, t')"
  shows "\<exists>k. k < 3 \<and> t' = t @ concat (replicate k [Net req, Sleep 1000]) @ [Net req] \<and> r \<noteq> None"
  using fetchWithRetry_from_effects [of 3 3 0 call req 1000 t r t'] assms
  by (simp add: fetchWithRetry_def)

lemma fetchWithRetry_first:
  assumes "fetchWithRetry call req t = (r, t')"
  shows "\<exists>rest. t' = t @ Net req # rest"
proof -
  from fetchWithRetry_effects [OF assms] obtain k where
    "t' = t @ concat (replicate k [Net req, Sleep 1000]) @ [Net req]" by blast
  then show ?thesis by (cases k) auto
qed

lemma fetchClients_first: "\<exists>rest. effects (fetchClients be a) = effects a @ Net GetClients # rest"
proof -
  obtain r t' where f: "fetchWithRetry (get_clients be) GetClients (effects a) = (r, t')"
    by (cases "fetchWithRetry (get_clients be) GetClients (effects a)")
  from fetchWithRetry_first [OF f] f show ?thesis
    by (auto simp: fetchClients_def split: option.splits sum.splits)
qed


lemma fetchWithRetry_rejected:
  "call t = Inl e \<Longrightarrow> err_code e \<noteq> Some ''ERR_NETWORK'' \<Longrightarrow>
   fetchWithRetry call req t = (Some (Inl e), t @ [Net req])"
  by (simp add: fetchWithRetry_def fetchWithRetry_from.simps)

lemma fetchWithRetry_answered:
  "call t = Inr r \<Longrightarrow> fetchWithRetry call req t = (Some (Inr r), t @ [Net req])"
  by (simp add: fetchWithRetry_def fetchWithRetry_from.simps)


section \<open>Creating a client\<close>

text \<open>
  With \<open>formData\<close> bound to a form object, \<open>handleSubmit\<close> stops at the first failed
  check with a form error and sends nothing: this is what the handler is written
  to do.
\<close>

lemma resolve_formData_unbound: "sc ''formData'' = None \<Longrightarrow> resolve_formData sc = Inl ReferenceError"
  by (simp add: resolve_formData_def)

lemma validation_blocks_submission:
  assumes "sc ''formData'' = Some (FormObject fd)"
    and "\<not> matches email_regex (f_email fd) \<or> length (f_name fd) < 3
         \<or> f_openai_api_key fd = [] \<or> f_openai_assistant_id fd = []"
  shows "fst (handleSubmit sc be a) = None
    \<and> formError (snd (handleSubmit sc be a)) \<noteq> None
    \<and> effects (snd (handleSubmit sc be a)) = effects a"
  using assms by (auto simp: handleSubmit_def validateForm_def resolve_formData_def)

lemma validation_blocks_short_name:
  "handleSubmit (bound_form short_name_form)
     (fixed_backend (Inr acme) (Inr ''open'') (Inr no_qr) (Inr (Some [acme_rec])) (Inr ()))
     adding_admin =
   (None, adding_admin\<lparr>formError := Some ''El nombre debe tener al menos 3 caracteres''\<rparr>)"
  by (simp add: handleSubmit_def validateForm_def resolve_formData_def bound_form_def
      short_name_form_def email_regex_def plus1_def word_chars_def)

text \<open>
  C6. Every submission of the add-client form is validated first, and an input
  that fails a check is stopped with a validation error before any request. In the
  component as written the form cannot be submitted at all: opening the modal makes
  the next render evaluate \<open>formData.name\<close>, which has no binding, so the render
  throws and the form that carries \<open>handleSubmit\<close> is never shown.
\<close>

theorem add_client_modal_crashes:
  "render no_bindings listing_admin = Inr (MainPage None)
   \<and> render no_bindings (openAddForm listing_admin) = Inl ReferenceError"
  by (simp add: render_def no_bindings_def listing_admin_def initial_admin_def openAddForm_def
      truthy_def resolve_formData_def)

text \<open>
  C7. While no enclosing scope binds \<open>formData\<close>, every call of \<open>validateForm\<close> and
  of \<open>handleSubmit\<close> ends in a \<open>ReferenceError\<close> and performs no effect, so the
  request that creates a client is never sent, whatever the backend; and every
  render that reaches the main page with the add-client modal open ends in the
  same error.
\<close>

theorem createClient_unreachable:
  "(sc ''formData'' = None \<longrightarrow>
      validateForm sc a = Inl ReferenceError
      \<and> fst (handleSubmit sc be a) = Some ReferenceError
      \<and> effects (snd (handleSubmit sc be a)) = effects a)
   \<and> (sc ''formData'' = None \<and> showAddForm a
        \<and> \<not> (truthy (error a) \<and> loadingStates a ''fetchClients'' \<noteq> Some True)
        \<and> \<not> (loadingStates a ''fetchClients'' = Some True \<and> clients a = []) \<longrightarrow>
      render sc a = Inl ReferenceError)"
  by (auto simp add: handleSubmit_def validateForm_def resolve_formData_def render_def)

theorem createClient_unreachable_witness:
  "fst (handleSubmit no_bindings
          (fixed_backend (Inr acme) (Inr ''open'') (Inr no_qr) (Inr (Some [acme_rec])) (Inr ()))
          adding_admin) = Some ReferenceError
   \<and> effects (snd (handleSubmit no_bindings
          (fixed_backend (Inr acme) (Inr ''open'') (Inr no_qr) (Inr (Some [acme_rec])) (Inr ()))
          adding_admin)) = []
   \<and> render no_bindings adding_admin = Inl ReferenceError"
proof -
  have h: "no_bindings ''formData'' = None" by (simp add: no_bindings_def)
  have g: "showAddForm adding_admin
      \<and> \<not> (truthy (error adding_admin) \<and> loadingStates adding_admin ''fetchClients'' \<noteq> Some True)
      \<and> \<not> (loadingStates adding_admin ''fetchClients'' = Some True \<and> clients adding_admin = [])"
    by (simp add: adding_admin_def listing_admin_def initial_admin_def truthy_def)
  from createClient_unreachable [of no_bindings adding_admin
      "fixed_backend (Inr acme) (Inr ''open'') (Inr no_qr) (Inr (Some [acme_rec])) (Inr ())"] h g
  show ?thesis
    by (simp add: adding_admin_def listing_admin_def initial_admin_def)
qed



section \<open>Failed fleet mutations\<close>

text \<open>
  C8. When the backend call of a fleet mutation fails, an error message is
  surfaced and the client list is still refreshed from the backend.
  \<open>resendEmail\<close> and \<open>updateClientEmail\<close> miss the refresh that \<open>toggleClient\<close>
  and \<open>deleteClient\<close> perform in their \<open>catch\<close> block: with the backend's list
  down to one client and the request rejected, they ask for nothing more and keep
  both rows, where a rejected toggle fetches the list and shows the one row.
\<close>

theorem resend_and_update_failure_without_refresh:
  "effects (resendEmail
      (fixed_backend (Inr acme) (Inr ''open'') (Inr no_qr) (Inr (Some [acme_rec])) (Inl server_down))
      accept ''c1'' ''info@acme.cl'' listing_admin) =
     [Confirm (resend_prompt ''info@acme.cl'') True, Net (PostResendEmail ''c1'')]
   \<and> clients (resendEmail
      (fixed_backend (Inr acme) (Inr ''open'') (Inr no_qr) (Inr (Some [acme_rec])) (Inl server_down))
      accept ''c1'' ''info@acme.cl'' listing_admin) = [mapClient acme_rec, mapClient other_rec]
   \<and> effects (updateClientEmail
      (fixed_backend (Inr acme) (Inr ''open'') (Inr no_qr) (Inr (Some [acme_rec])) (Inl server_down))
      editing_admin) = [Net (PutEmail ''c1'' ''new@acme.cl'')]
   \<and> clients (updateClientEmail
      (fixed_backend (Inr acme) (Inr ''open'') (Inr no_qr) (Inr (Some [acme_rec])) (Inl server_down))
      editing_admin) = [mapClient acme_rec, mapClient other_rec]
   \<and> clients (toggleClient
      (fixed_backend (Inr acme) (Inr ''open'') (Inr no_qr) (Inr (Some [acme_rec])) (Inl server_down))
      ''c1'' False listing_admin) = [mapClient acme_rec]"
  by (simp add: resendEmail_def updateClientEmail_def toggleClient_def accept_def begin_op_def
      end_op_def fetchWithRetry_def fetchWithRetry_from.simps fixed_backend_def listing_admin_def
      editing_admin_def initial_admin_def server_down_def http_error_def fetchClients_def
      toggle_action_def Let_def email_regex_def plus1_def word_chars_def)
    (simp add: mapClient_def acme_rec_def)

text \<open>
  The four \<open>catch\<close> blocks. When the backend call of \<open>toggleClient\<close> or
  \<open>deleteClient\<close> is rejected, the client list is requested from the backend right
  after it. When the call of \<open>updateClientEmail\<close> or \<open>resendEmail\<close> is rejected,
  the error message is set from the rejection, nothing more is requested and the
  list is left as it was.
\<close>

theorem mutation_failure_paths:
  "(fetchWithRetry (\<lambda>h. mutate be h (PostToggle iid (toggle_action act)))
        (PostToggle iid (toggle_action act)) (effects a) = (Some (Inl e), t) \<longrightarrow>
      (\<exists>rest. effects (toggleClient be iid act a) = t @ Net GetClients # rest))
   \<and> (confirm (delete_prompt name)
        \<and> fetchWithRetry (\<lambda>h. mutate be h (DeleteClient iid)) (DeleteClient iid)
            (effects a @ [Confirm (delete_prompt name) True]) = (Some (Inl e), t) \<longrightarrow>
      (\<exists>rest. effects (deleteClient be confirm iid name a) = t @ Net GetClients # rest))
   \<and> (editingClient a = Some ec \<and> matches email_regex (newEmail a)
        \<and> fetchWithRetry (\<lambda>h. mutate be h (PutEmail (instance_id ec) (newEmail a)))
            (PutEmail (instance_id ec) (newEmail a)) (effects a) = (Some (Inl e), t) \<longrightarrow>
      effects (updateClientEmail be a) = t
      \<and> error (updateClientEmail be a) = Some (or_default (err_detail e) ''No se pudo actualizar el email'')
      \<and> clients (updateClientEmail be a) = clients a)
   \<and> (confirm (resend_prompt email)
        \<and> fetchWithRetry (\<lambda>h. mutate be h (PostResendEmail iid)) (PostResendEmail iid)
            (effects a @ [Confirm (resend_prompt email) True]) = (Some (Inl e), t) \<longrightarrow>
      effects (resendEmail be confirm iid email a) = t
      \<and> error (resendEmail be confirm iid email a) = Some (or_default (err_detail e) ''No se pudo reenviar el email'')
      \<and> clients (resendEmail be confirm iid email a) = clients a)"
proof (intro conjI impI)
  assume f: "fetchWithRetry (\<lambda>h. mutate be h (PostToggle iid (toggle_action act)))
        (PostToggle iid (toggle_action act)) (effects a) = (Some (Inl e), t)"
  let ?a = "(begin_op (''toggle-'' @ iid) a)
              \<lparr>error := Some (or_default (err_detail e)
                         (if act then ''No se pudo activar el cliente''
                          else ''No se pudo desactivar el cliente'')),
               effects := t\<rparr>"
  from fetchClients_first [of be ?a] obtain rest where
    "effects (fetchClients be ?a) = t @ Net GetClients # rest" by auto
  with f show "\<exists>rest. effects (toggleClient be iid act a) = t @ Net GetClients # rest"
    by (simp add: toggleClient_def Let_def begin_op_def end_op_def)
next
  assume "confirm (delete_prompt name)
        \<and> fetchWithRetry (\<lambda>h. mutate be h (DeleteClient iid)) (DeleteClient iid)
            (effects a @ [Confirm (delete_prompt name) True]) = (Some (Inl e), t)"
  then have c: "confirm (delete_prompt name)"
    and f: "fetchWithRetry (\<lambda>h. mutate be h (DeleteClient iid)) (DeleteClient iid)
            (effects a @ [Confirm (delete_prompt name) True]) = (Some (Inl e), t)" by blast+
  let ?a = "(begin_op (''delete-'' @ iid)
               (a\<lparr>effects := effects a @ [Confirm (delete_prompt name) True]\<rparr>))
              \<lparr>error := Some (or_default (err_detail e) ''No se pudo eliminar el cliente''),
               effects := t\<rparr>"
  from fetchClients_first [of be ?a] obtain rest where
    "effects (fetchClients be ?a) = t @ Net GetClients # rest" by auto
  with c f show "\<exists>rest. effects (deleteClient be confirm iid name a) = t @ Net GetClients # rest"
    by (simp add: deleteClient_def Let_def begin_op_def end_op_def)
next
  assume h: "editingClient a = Some ec \<and> matches email_regex (newEmail a)
        \<and> fetchWithRetry (\<lambda>h. mutate be h (PutEmail (instance_id ec) (newEmail a)))
            (PutEmail (instance_id ec) (newEmail a)) (effects a) = (Some (Inl e), t)"
  then show "effects (updateClientEmail be a) = t"
    "error (updateClientEmail be a) = Some (or_default (err_detail e) ''No se pudo actualizar el email'')"
    "clients (updateClientEmail be a) = clients a"
    by (simp_all add: updateClientEmail_def Let_def begin_op_def end_op_def)
next
  assume h: "confirm (resend_prompt email)
        \<and> fetchWithRetry (\<lambda>h. mutate be h (PostResendEmail iid)) (PostResendEmail iid)
            (effects a @ [Confirm (resend_prompt email) True]) = (Some (Inl e), t)"
  then show "effects (resendEmail be confirm iid email a) = t"
    "error (resendEmail be confirm iid email a) = Some (or_default (err_detail e) ''No se pudo reenviar el email'')"
    "clients (resendEmail be confirm iid email a) = clients a"
    by (simp_all add: resendEmail_def Let_def begin_op_def end_op_def)
qed


theorem mutation_failure_paths_witness:
  "take 2 (effects (toggleClient
      (fixed_backend (Inr acme) (Inr ''open'') (Inr no_qr) (Inr (Some [acme_rec])) (Inl server_down))
      ''c1'' False listing_admin)) =
     [Net (PostToggle ''c1'' ''disconnect''), Net GetClients]
   \<and> take 3 (effects (deleteClient
      (fixed_backend (Inr acme) (Inr ''open'') (Inr no_qr) (Inr (Some [acme_rec])) (Inl server_down))
      accept ''c1'' ''Acme Law'' listing_admin)) =
     [Confirm (delete_prompt ''Acme Law'') True, Net (DeleteClient ''c1''), Net GetClients]
   \<and> effects (updateClientEmail
      (fixed_backend (Inr acme) (Inr ''open'') (Inr no_qr) (Inr (Some [acme_rec])) (Inl server_down))
      editing_admin) = [Net (PutEmail ''c1'' ''new@acme.cl'')]
   \<and> error (updateClientEmail
      (fixed_backend (Inr acme) (Inr ''open'') (Inr no_qr) (Inr (Some [acme_rec])) (Inl server_down))
      editing_admin) = Some ''Internal Server Error''
   \<and> error (resendEmail
      (fixed_backend (Inr acme) (Inr ''open'') (Inr no_qr) (Inr (Some [acme_rec])) (Inl server_down))
      accept ''c1'' ''info@acme.cl'' listing_admin) = Some ''Internal Server Error''"
proof -
  let ?be = "fixed_backend (Inr acme) (Inr ''open'') (Inr no_qr) (Inr (Some [acme_rec])) (Inl server_down)"
  have m: "\<And>h r. mutate ?be h r = Inl server_down" by (simp add: fixed_backend_def)
  have nn: "err_code server_down \<noteq> Some ''ERR_NETWORK''"
    by (simp add: server_down_def http_error_def)
  have e0: "effects listing_admin = []" "effects editing_admin = []"
    by (simp_all add: listing_admin_def editing_admin_def initial_admin_def)
  have h1: "fetchWithRetry (\<lambda>h. mutate ?be h (PostToggle ''c1'' (toggle_action False)))
        (PostToggle ''c1'' (toggle_action False)) (effects listing_admin)
      = (Some (Inl server_down), [Net (PostToggle ''c1'' (toggle_action False))])"
    using fetchWithRetry_rejected [OF m nn] by (simp add: e0)
  have h2: "accept (delete_prompt ''Acme Law'')
      \<and> fetchWithRetry (\<lambda>h. mutate ?be h (DeleteClient ''c1'')) (DeleteClient ''c1'')
            (effects listing_admin @ [Confirm (delete_prompt ''Acme Law'') True])
         = (Some (Inl server_down), [Confirm (delete_prompt ''Acme Law'') True, Net (DeleteClient ''c1'')])"
    using fetchWithRetry_rejected [OF m nn] by (simp add: e0 accept_def)
  have v: "matches email_regex ''new@acme.cl''"
    by (simp add: email_regex_def plus1_def word_chars_def)
  have h3: "editingClient editing_admin = Some (mapClient acme_rec)
      \<and> matches email_regex (newEmail editing_admin)
      \<and> fetchWithRetry (\<lambda>h. mutate ?be h (PutEmail (instance_id (mapClient acme_rec)) (newEmail editing_admin)))
            (PutEmail (instance_id (mapClient acme_rec)) (newEmail editing_admin)) (effects editing_admin)
         = (Some (Inl server_down),
            [Net (PutEmail (instance_id (mapClient acme_rec)) (newEmail editing_admin))])"
    using fetchWithRetry_rejected [OF m nn] v by (simp add: e0) (simp add: editing_admin_def)
  have h4: "accept (resend_prompt ''info@acme.cl'')
      \<and> fetchWithRetry (\<lambda>h. mutate ?be h (PostResendEmail ''c1'')) (PostResendEmail ''c1'')
            (effects listing_admin @ [Confirm (resend_prompt ''info@acme.cl'') True])
         = (Some (Inl server_down),
            [Confirm (resend_prompt ''info@acme.cl'') True, Net (PostResendEmail ''c1'')])"
    using fetchWithRetry_rejected [OF m nn] by (simp add: e0 accept_def)
  from mutation_failure_paths [of ?be "''c1''" False listing_admin server_down
      "[Net (PostToggle ''c1'' (toggle_action False))]"] h1
  obtain r1 where 1: "effects (toggleClient ?be ''c1'' False listing_admin) =
      [Net (PostToggle ''c1'' (toggle_action False))] @ Net GetClients # r1" by blast
  from mutation_failure_paths [of ?be "''c1''" _ listing_admin server_down
      "[Confirm (delete_prompt ''Acme Law'') True, Net (DeleteClient ''c1'')]" accept "''Acme Law''"] h2
  obtain r2 where 2: "effects (deleteClient ?be accept ''c1'' ''Acme Law'' listing_admin) =
      [Confirm (delete_prompt ''Acme Law'') True, Net (DeleteClient ''c1'')] @ Net GetClients # r2"
    by blast
  from mutation_failure_paths [of ?be _ _ editing_admin server_down
      "[Net (PutEmail (instance_id (mapClient acme_rec)) (newEmail editing_admin))]" _ _
      "mapClient acme_rec"] h3
  have 3: "effects (updateClientEmail ?be editing_admin) =
      [Net (PutEmail (instance_id (mapClient acme_rec)) (newEmail editing_admin))]"
    and 4: "error (updateClientEmail ?be editing_admin) =
      Some (or_default (err_detail server_down) ''No se pudo actualizar el email'')"
    by blast+
  from mutation_failure_paths [of ?be "''c1''" _ listing_admin server_down
      "[Confirm (resend_prompt ''info@acme.cl'') True, Net (PostResendEmail ''c1'')]" accept _ _
      "''info@acme.cl''"] h4
  have 5: "error (resendEmail ?be accept ''c1'' ''info@acme.cl'' listing_admin) =
      Some (or_default (err_detail server_down) ''No se pudo reenviar el email'')"
    by blast
  from 1 have "take 2 (effects (toggleClient ?be ''c1'' False listing_admin)) =
     [Net (PostToggle ''c1'' ''disconnect''), Net GetClients]"
    by (simp add: toggle_action_def)
  moreover from 2 have "take 3 (effects (deleteClient ?be accept ''c1'' ''Acme Law'' listing_admin)) =
     [Confirm (delete_prompt ''Acme Law'') True, Net (DeleteClient ''c1''), Net GetClients]"
    by simp
  moreover from 3 have "effects (updateClientEmail ?be editing_admin) = [Net (PutEmail ''c1'' ''new@acme.cl'')]"
    by (simp add: editing_admin_def mapClient_def acme_rec_def)
  moreover from 4 have "error (updateClientEmail ?be editing_admin) = Some ''Internal Server Error''"
    by (simp add: server_down_def http_error_def or_default_def)
  moreover from 5 have "error (resendEmail ?be accept ''c1'' ''info@acme.cl'' listing_admin) =
      Some ''Internal Server Error''"
    by (simp add: server_down_def http_error_def or_default_def)
  ultimately show ?thesis by blast
qed


text \<open>
  The refresh after a rejected toggle or delete stores the backend's answer.
\<close>

lemma failure_then_refresh_stores_answer:
  "(fetchWithRetry (\<lambda>h. mutate be h (PostToggle iid (toggle_action act)))
        (PostToggle iid (toggle_action act)) (effects a) = (Some (Inl e), t)
      \<and> fetchWithRetry (get_clients be) GetClients t = (Some (Inr (Some cs)), t') \<longrightarrow>
      clients (toggleClient be iid act a) = map mapClient cs
      \<and> effects (toggleClient be iid act a) = t')
   \<and> (confirm (delete_prompt name)
      \<and> fetchWithRetry (\<lambda>h. mutate be h (DeleteClient iid)) (DeleteClient iid)
            (effects a @ [Confirm (delete_prompt name) True]) = (Some (Inl e), t)
      \<and> fetchWithRetry (get_clients be) GetClients t = (Some (Inr (Some cs)), t') \<longrightarrow>
      clients (deleteClient be confirm iid name a) = map mapClient cs
      \<and> effects (deleteClient be confirm iid name a) = t')"
  by (simp add: toggleClient_def deleteClient_def Let_def begin_op_def end_op_def fetchClients_def)

text \<open>
  After a rejected toggle the refresh starts by clearing \<open>error\<close>, so with a
  refresh that succeeds the message of the rejection is gone.
\<close>

lemma toggle_failure_error_cleared_by_refresh:
  "error (toggleClient
      (fixed_backend (Inr acme) (Inr ''open'') (Inr no_qr) (Inr (Some [acme_rec])) (Inl server_down))
      ''c1'' False listing_admin) = None"
  by (simp add: toggleClient_def Let_def begin_op_def end_op_def fetchWithRetry_rejected
      fetchWithRetry_answered fetchClients_def fixed_backend_def server_down_def http_error_def
      listing_admin_def initial_admin_def toggle_action_def)



section \<open>Disconnecting WhatsApp\<close>

text \<open>
  C9. A disconnect is dispatched only after the user has confirmed it. The admin
  panel's \<open>toggleClient\<close> misses the confirmation that the disconnect handlers of
  the client pages, and \<open>deleteClient\<close> and \<open>resendEmail\<close> beside it, perform: a
  toggle to \<open>disconnect\<close> sends its request with no dialog shown.
\<close>

theorem admin_toggle_disconnect_unconfirmed:
  "effects (toggleClient
      (fixed_backend (Inr acme) (Inr ''open'') (Inr no_qr) (Inr (Some [acme_rec, other_rec])) (Inr ()))
      ''c1'' False listing_admin) =
     [Net (PostToggle ''c1'' ''disconnect''), Net GetClients, ClearSuccessAfter 3000]"
  by (simp add: toggleClient_def Let_def begin_op_def end_op_def notify_success_def
      fetchWithRetry_answered fetchClients_def fixed_backend_def
      listing_admin_def initial_admin_def toggle_action_def)

text \<open>
  The client-facing pages (\<open>handleDisconnectWhatsApp\<close> of \<open>ClientLanding\<close>,
  \<open>handleDisconnect\<close> of \<open>QRAssistantPage\<close>) do confirm. A disconnect that the
  user does not confirm makes no network request: with a client loaded its only
  effect is the declined dialog. When the user confirms, the request
  \<open>POST toggle {action: disconnect}\<close> is the first effect after the accepted
  dialog.
\<close>

theorem disconnect_needs_confirmation:
  "(\<not> confirm disconnect_prompt \<longrightarrow>
      filter is_net (trace (handleDisconnectWhatsApp be confirm uo v)) = filter is_net (trace v)
      \<and> filter is_net (trace (handleDisconnect be confirm u v)) = filter is_net (trace v))
   \<and> (viewed_id v = Id cid \<and> cid \<noteq> [] \<and> \<not> confirm disconnect_prompt \<longrightarrow>
      trace (handleDisconnectWhatsApp be confirm uo v) = trace v @ [Confirm disconnect_prompt False]
      \<and> trace (handleDisconnect be confirm u v) = trace v @ [Confirm disconnect_prompt False])
   \<and> (viewed_id v = Id cid \<and> cid \<noteq> [] \<and> confirm disconnect_prompt \<longrightarrow>
      (\<exists>rest. trace (handleDisconnectWhatsApp be confirm uo v) =
         trace v @ Confirm disconnect_prompt True # Net (PostToggle cid ''disconnect'') # rest)
      \<and> (\<exists>rest. trace (handleDisconnect be confirm u v) =
         trace v @ Confirm disconnect_prompt True # Net (PostToggle cid ''disconnect'') # rest))"
proof (intro conjI impI)
  assume "\<not> confirm disconnect_prompt"
  then show "filter is_net (trace (handleDisconnectWhatsApp be confirm uo v)) = filter is_net (trace v)"
    "filter is_net (trace (handleDisconnect be confirm u v)) = filter is_net (trace v)"
    by (simp_all add: handleDisconnectWhatsApp_def handleDisconnect_def emit_def split: js_id.splits)
next
  assume "viewed_id v = Id cid \<and> cid \<noteq> [] \<and> \<not> confirm disconnect_prompt"
  then show "trace (handleDisconnectWhatsApp be confirm uo v) = trace v @ [Confirm disconnect_prompt False]"
    "trace (handleDisconnect be confirm u v) = trace v @ [Confirm disconnect_prompt False]"
    by (simp_all add: handleDisconnectWhatsApp_def handleDisconnect_def emit_def)
next
  assume h: "viewed_id v = Id cid \<and> cid \<noteq> [] \<and> confirm disconnect_prompt"
  let ?w = "(emit (ToastSuccess ''WhatsApp desvinculado exitosamente.'')
                      (emit (Net (PostToggle cid ''disconnect''))
                        (emit (Confirm disconnect_prompt True) v)))
                      \<lparr>refreshing := True\<rparr>"
  from landing_trace_extends [of be uo True ?w] obtain r1 where
    r1: "trace (fetchClientData_landing be uo True ?w) = trace ?w @ r1" ..
  from qr_page_trace_extends [of be u ?w] obtain r2 where
    r2: "trace (fetchClientData be u ?w) = trace ?w @ r2" ..
  from h r1 show "\<exists>rest. trace (handleDisconnectWhatsApp be confirm uo v) =
         trace v @ Confirm disconnect_prompt True # Net (PostToggle cid ''disconnect'') # rest"
    by (cases "mutate be (trace v @ [Confirm disconnect_prompt True]) (PostToggle cid ''disconnect'')")
      (simp_all add: handleDisconnectWhatsApp_def emit_def)
  from h r2 show "\<exists>rest. trace (handleDisconnect be confirm u v) =
         trace v @ Confirm disconnect_prompt True # Net (PostToggle cid ''disconnect'') # rest"
    by (cases "mutate be (trace v @ [Confirm disconnect_prompt True]) (PostToggle cid ''disconnect'')")
      (simp_all add: handleDisconnect_def emit_def)
qed

theorem disconnect_needs_confirmation_witness:
  "trace (handleDisconnectWhatsApp
      (fixed_backend (Inr acme) (Inr ''close'') (Inr no_qr) (Inr None) (Inr ()))
      decline (Some ''acme-law'') connected_view) = [Confirm disconnect_prompt False]
   \<and> take 2 (trace (handleDisconnect
      (fixed_backend (Inr acme) (Inr ''close'') (Inr no_qr) (Inr None) (Inr ()))
      accept ''acme-law'' connected_view)) =
     [Confirm disconnect_prompt True, Net (PostToggle ''c1'' ''disconnect'')]"
proof -
  let ?be = "fixed_backend (Inr acme) (Inr ''close'') (Inr no_qr) (Inr None) (Inr ())"
  have v: "viewed_id connected_view = Id ''c1''"
    by (simp add: viewed_id_def connected_view_def newClientData_def acme_def)
  have d: "\<not> decline disconnect_prompt" by (simp add: decline_def)
  have a: "accept disconnect_prompt" by (simp add: accept_def)
  from disconnect_needs_confirmation [of decline ?be "Some ''acme-law''" connected_view "''acme-law''" "''c1''"] v d
  have 1: "trace (handleDisconnectWhatsApp ?be decline (Some ''acme-law'') connected_view) =
      trace connected_view @ [Confirm disconnect_prompt False]"
    by simp
  from disconnect_needs_confirmation [of accept ?be "Some ''acme-law''" connected_view "''acme-law''" "''c1''"] v a
  obtain rest where 2: "trace (handleDisconnect ?be accept ''acme-law'' connected_view) =
      trace connected_view @ Confirm disconnect_prompt True # Net (PostToggle ''c1'' ''disconnect'') # rest"
    by auto
  from 1 2 show ?thesis by (simp add: connected_view_def)
qed



section \<open>Deleting a client\<close>










end
